theory Spec2Isabelle
  imports Complex_Main
begin

section \<open>Normal-mode vibrational analysis: the calculators of nm.py\<close>

text \<open>
  The program works on numpy arrays of double-precision numbers. The embedding reads a
  number as a \<^typ>\<open>real\<close>, a one-dimensional array as a list and a two-dimensional array as
  a list of rows. Where numpy divides by zero it yields an infinity or a NaN, and every
  comparison with those is false or fixed; HOL's division by zero yields 0, so each
  division whose result is compared carries the test of its denominator written out,
  and each division whose result is stored is made only after the test of its
  denominator.
  The services the program calls but does not define (the force evaluator, the
  eigen-solvers and interpolators of numpy and scipy) are parameters of the definitions.
\<close>

text \<open>
  The exceptions that the program raises, each with its message, and one outcome that is
  not an exception: where numpy divides by zero or takes the root of a negative number it
  warns and goes on with an infinity or a NaN in the array. These are not real numbers.
  The embedding ends there with \<open>NonFinite\<close> and the name of the array, and says nothing
  about what the program does with such an array afterwards.
\<close>

datatype error =
    ValueError string
  | LinAlgError string
  | SoftExit string
  | IOError string
  | IndexError string
  | TypeError string
  | NonFinite string


subsection \<open>Arrays\<close>

type_synonym vec = "real list"
type_synonym mat = "real list list"

definition zeros2 :: "nat \<Rightarrow> nat \<Rightarrow> mat" where
  \<comment> \<open>\<open>np.zeros((r, c), float)\<close>\<close>
  "zeros2 r c = replicate r (replicate c 0)"

definition reshape2 :: "nat \<Rightarrow> nat \<Rightarrow> vec \<Rightarrow> mat" where
  \<comment> \<open>\<open>a.reshape((r, c))\<close> of an array of \<open>r * c\<close> elements, row-major\<close>
  "reshape2 r c xs = map (\<lambda>i. take c (drop (i * c) xs)) [0..<r]"

definition ncols :: "mat \<Rightarrow> nat" where
  "ncols A = (case A of [] \<Rightarrow> 0 | r # _ \<Rightarrow> length r)"

definition eye :: "nat \<Rightarrow> mat" where
  "eye n = map (\<lambda>i. map (\<lambda>j. if i = j then 1 else 0) [0..<n]) [0..<n]"

definition transpose_m :: "mat \<Rightarrow> mat" where
  "transpose_m A = map (\<lambda>j. map (\<lambda>i. A ! i ! j) [0..<length A]) [0..<ncols A]"

definition matmul :: "mat \<Rightarrow> mat \<Rightarrow> mat" where
  \<comment> \<open>\<open>np.dot\<close> of two two-dimensional arrays\<close>
  "matmul A B =
     map (\<lambda>i. map (\<lambda>j. \<Sum>k<length B. A ! i ! k * B ! k ! j) [0..<ncols B]) [0..<length A]"

definition mat_sub :: "mat \<Rightarrow> mat \<Rightarrow> mat" where
  "mat_sub A B = map (\<lambda>i. map (\<lambda>j. A ! i ! j - B ! i ! j) [0..<ncols A]) [0..<length A]"

definition mat_vec :: "mat \<Rightarrow> vec \<Rightarrow> vec" where
  \<comment> \<open>\<open>np.dot\<close> of a matrix and a vector\<close>
  "mat_vec A v = map (\<lambda>i. \<Sum>j<length v. A ! i ! j * v ! j) [0..<length A]"

definition dot :: "vec \<Rightarrow> vec \<Rightarrow> real" where
  \<comment> \<open>\<open>np.dot\<close> of two vectors of one length\<close>
  "dot x y = (\<Sum>k<length x. x ! k * y ! k)"

definition norm2 :: "vec \<Rightarrow> real" where
  \<comment> \<open>\<open>np.linalg.norm\<close> of a vector\<close>
  "norm2 x = sqrt (\<Sum>k<length x. (x ! k)\<^sup>2)"

definition cross3 :: "vec \<Rightarrow> vec \<Rightarrow> vec" where
  \<comment> \<open>\<open>np.cross\<close> of two vectors of three components\<close>
  "cross3 a b =
     [a ! 1 * b ! 2 - a ! 2 * b ! 1, a ! 2 * b ! 0 - a ! 0 * b ! 2, a ! 0 * b ! 1 - a ! 1 * b ! 0]"

subsection \<open>NormalModeMover and apply_asr\<close>

text \<open>
  The fields of the mover (\<open>self.imm\<close> in the calculators) that the calculators read.
  \<open>imm_q\<close> is the single bead's position vector (\<open>beads.q\<close>, \<open>3 * natoms\<close> numbers),
  \<open>imm_m\<close> the masses of the atoms, \<open>imm_ism\<close> the vector \<open>1 / sqrt(m3)\<close> set by
  NormalModeMover.bind, one entry for each degree of freedom, \<open>imm_dynmatrix\<close> the
  elements of the array given as \<open>dynmat\<close>, in row-major order. The fields from
  \<open>imm_dm\<close> on are the attributes that IMF.bind sets on the mover: \<open>imm_dm\<close> is
  \<open>self.imm.dynmatrix\<close> once it is a square matrix.
\<close>

record mover =
  imm_asr :: string
  imm_nz :: nat
  imm_natoms :: nat
  imm_q :: vec
  imm_m :: vec
  imm_ism :: vec
  imm_dynmatrix :: vec
  imm_fnmrms :: real
  imm_nevib :: real
  imm_nint :: nat
  imm_nbasis :: nat
  imm_athresh :: real
  imm_nprim :: real
  imm_temp :: real
  imm_dm :: mat
  imm_w2 :: vec
  imm_U :: mat
  imm_w :: vec
  imm_V :: mat
  imm_nmrms :: vec
  imm_nmevib :: vec

definition tile_over_ism :: "nat \<Rightarrow> mover \<Rightarrow> vec" where
  \<comment> \<open>\<open>np.tile(e_k, natoms) / self.ism\<close>, with \<open>e_k\<close> the \<open>k\<close>-th unit vector of three components\<close>
  "tile_over_ism k mv =
     map (\<lambda>i. (if i mod 3 = k then 1 else 0) / imm_ism mv ! i) [0..<3 * imm_natoms mv]"

definition normalise :: "vec \<Rightarrow> vec option" where
  \<comment> \<open>\<open>D[k] / np.linalg.norm(D[k])\<close>; a row of zeros has the norm 0 and becomes a row of
      NaN, which is the result None\<close>
  "normalise v = (if v \<noteq> [] \<and> norm2 v = 0 then None else Some (map (\<lambda>x. x / norm2 v) v))"

definition com :: "mover \<Rightarrow> vec" where
  \<comment> \<open>\<open>np.dot(np.transpose(q.reshape((natoms, 3))), m) / m.sum()\<close>, computed when
      \<open>m.sum()\<close> is not zero\<close>
  "com mv = map (\<lambda>d. (\<Sum>a<imm_natoms mv. imm_q mv ! (3 * a + d) * imm_m mv ! a) / sum_list (imm_m mv)) [0..<3]"

definition qminuscom :: "mover \<Rightarrow> mat" where
  "qminuscom mv = map (\<lambda>a. map (\<lambda>d. imm_q mv ! (3 * a + d) - com mv ! d) [0..<3]) [0..<imm_natoms mv]"

definition moi :: "mover \<Rightarrow> mat" where
  \<comment> \<open>the moment of inertia tensor: \<open>moi -= np.dot(C, C) * m[k]\<close> with
      \<open>C = np.cross(qminuscom[k], np.identity(3))\<close>, summed over the atoms\<close>
  "moi mv =
     map (\<lambda>i. map (\<lambda>j. - (\<Sum>k<imm_natoms mv.
         matmul (map (cross3 (qminuscom mv ! k)) (eye 3))
                (map (cross3 (qminuscom mv ! k)) (eye 3)) ! i ! j * imm_m mv ! k)) [0..<3]) [0..<3]"

definition rot_row :: "nat \<Rightarrow> nat \<Rightarrow> mat \<Rightarrow> mat \<Rightarrow> mover \<Rightarrow> vec" where
  \<comment> \<open>\<open>(R[iatom, a] * U[idof, b] - R[iatom, b] * U[idof, a]) / self.ism[i]\<close> for each \<open>i\<close>;
      \<open>iatom = i / 3\<close> is Python 2's integer division\<close>
  "rot_row a b R U mv =
     map (\<lambda>i. (R ! (i div 3) ! a * U ! (i mod 3) ! b - R ! (i div 3) ! b * U ! (i mod 3) ! a)
               / imm_ism mv ! i)
         [0..<3 * imm_natoms mv]"

text \<open>
  The rows of \<open>D\<close> before they are normalised, and the loop \<open>for k in range(...):
  D[k] = D[k] / np.linalg.norm(D[k])\<close>. Every row was divided by \<open>self.ism\<close>: an entry 0 of
  \<open>ism\<close> gives an infinity or a NaN, and so does a row of norm 0.
\<close>

definition translation_rows :: "mover \<Rightarrow> vec list" where
  "translation_rows mv = [tile_over_ism 0 mv, tile_over_ism 1 mv, tile_over_ism 2 mv]"

definition rotation_rows :: "(mat \<Rightarrow> mat) \<Rightarrow> mover \<Rightarrow> vec list" where
  \<comment> \<open>\<open>eigvecs\<close> stands for \<open>np.linalg.eig(moi)[1]\<close>; \<open>R = np.dot(qminuscom, U)\<close>\<close>
  "rotation_rows eigvecs mv =
     [rot_row 1 2 (matmul (qminuscom mv) (eigvecs (moi mv))) (eigvecs (moi mv)) mv,
      rot_row 2 0 (matmul (qminuscom mv) (eigvecs (moi mv))) (eigvecs (moi mv)) mv,
      rot_row 0 1 (matmul (qminuscom mv) (eigvecs (moi mv))) (eigvecs (moi mv)) mv]"

definition unit_rows :: "mover \<Rightarrow> vec list \<Rightarrow> error + mat" where
  "unit_rows mv rows =
     (if 0 \<in> set (map (\<lambda>i. imm_ism mv ! i) [0..<3 * imm_natoms mv]) then Inl (NonFinite ''D'')
      else (case those (map normalise rows) of
              None \<Rightarrow> Inl (NonFinite ''D'')
            | Some D \<Rightarrow> Inr D))"

definition D_crystal :: "mover \<Rightarrow> error + mat" where
  "D_crystal mv = unit_rows mv (translation_rows mv)"

definition D_poly :: "(mat \<Rightarrow> mat) \<Rightarrow> mover \<Rightarrow> error + mat" where
  "D_poly eigvecs mv = unit_rows mv (translation_rows mv @ rotation_rows eigvecs mv)"

definition transfmatrix :: "nat \<Rightarrow> mat \<Rightarrow> mat" where
  \<comment> \<open>\<open>np.eye(3 * natoms) - np.dot(D.T, D)\<close>\<close>
  "transfmatrix n D = mat_sub (eye n) (matmul (transpose_m D) D)"

definition project :: "nat \<Rightarrow> mat \<Rightarrow> mat \<Rightarrow> mat" where
  \<comment> \<open>\<open>np.dot(transfmatrix.T, np.dot(dm, transfmatrix))\<close>\<close>
  "project n D dm =
     matmul (transpose_m (transfmatrix n D)) (matmul dm (transfmatrix n D))"

text \<open>
  apply_asr returns the projected matrix and sets \<open>self.nz\<close>. Both branches start with
  the centre of mass, the tensor of inertia and its eigenvectors; the branch for
  "crystal" uses none of them in its result. The centre of mass divides by \<open>m.sum()\<close>.
  With any other value of \<open>asr\<close> no branch is taken and Python returns None.
\<close>

definition apply_asr :: "(mat \<Rightarrow> mat) \<Rightarrow> mover \<Rightarrow> mat \<Rightarrow> error + mat option \<times> mover" where
  "apply_asr eigvecs mv dm =
     (if imm_asr mv = ''none'' then Inr (Some dm, mv)
      else if imm_asr mv = ''crystal'' then
        (if sum_list (imm_m mv) = 0 then Inl (NonFinite ''com'')
         else (case D_crystal mv of
                 Inl e \<Rightarrow> Inl e
               | Inr D \<Rightarrow> Inr (Some (project (3 * imm_natoms mv) D dm), mv\<lparr>imm_nz := 3\<rparr>)))
      else if imm_asr mv = ''poly'' then
        (if sum_list (imm_m mv) = 0 then Inl (NonFinite ''com'')
         else (case D_poly eigvecs mv of
                 Inl e \<Rightarrow> Inl e
               | Inr D \<Rightarrow> Inr (Some (project (3 * imm_natoms mv) D dm), mv\<lparr>imm_nz := 6\<rparr>)))
      else Inr (None, mv))"

subsection \<open>IMF.bind\<close>

text \<open>
  The first block of IMF.bind: \<open>dynmatrix.size\<close> is compared with the square of
  \<open>beads.q.size\<close>; an empty array is replaced by zeros, any other array of the wrong size
  raises, an array of the right size is reshaped.
\<close>

definition init_dynmatrix :: "mover \<Rightarrow> error + mat" where
  "init_dynmatrix mv =
     (if length (imm_dynmatrix mv) \<noteq> length (imm_q mv) * length (imm_q mv) then
        (if length (imm_dynmatrix mv) = 0 then
           Inr (zeros2 (length (imm_q mv)) (length (imm_q mv)))
         else Inl (ValueError ''Force constant matrix size does not match system size''))
      else Inr (reshape2 (length (imm_q mv)) (length (imm_q mv)) (imm_dynmatrix mv)))"

text \<open>The state of a calculator: the mover it is bound to and its own attributes.\<close>

record imf =
  imm :: mover
  self_fnmrms :: real
  self_nevib :: real
  self_nint :: nat
  self_nbasis :: nat
  self_athresh :: real
  self_nprim :: real
  self_dof :: nat
  total_anhar_free_energy :: real
  total_har_free_energy :: real
  total_anhar_internal_energy :: real
  total_har_internal_energy :: real
  self_v0 :: real

text \<open>
  The rest of IMF.bind, once the matrix is projected. \<open>eigh\<close> stands for
  \<open>np.linalg.eigh\<close>. \<open>w[nz:] = sqrt(w2[nz:])\<close> and \<open>nmrms[nz:] = sqrt(0.5 / w[nz:])\<close> leave the
  first \<open>nz\<close> entries zero; \<open>V[:, i] *= ism\<close> scales row \<open>r\<close> of \<open>U\<close> by \<open>ism[r]\<close>. From
  the index \<open>nz\<close> on, a negative eigenvalue makes \<open>w\<close> (and \<open>nmrms\<close>, \<open>nmevib\<close>) NaN and an
  eigenvalue 0 makes \<open>nmrms\<close> infinite; the arrays are stored all the same and bind
  returns. The table of Hermite polynomials is left out: no definition below reads it.
\<close>

definition bind_modes :: "(mat \<Rightarrow> vec \<times> mat) \<Rightarrow> mover \<Rightarrow> mat \<Rightarrow> error + imf" where
  "bind_modes eigh mv dm =
     (let w2 = fst (eigh dm);
          U = snd (eigh dm);
          w = map (\<lambda>i. if i < imm_nz mv then 0 else sqrt (w2 ! i)) [0..<length w2];
          V = map (\<lambda>r. map (\<lambda>i. U ! r ! i * imm_ism mv ! r) [0..<length U]) [0..<length U];
          nmrms = map (\<lambda>i. if i < imm_nz mv then 0 else sqrt (0.5 / w ! i)) [0..<length w];
          nmevib = map (\<lambda>x. 0.5 * x) w
      in if \<exists>i \<in> set [imm_nz mv..<length w2]. w2 ! i < 0 then Inl (NonFinite ''w'')
         else if \<exists>i \<in> set [imm_nz mv..<length w2]. w2 ! i = 0 then Inl (NonFinite ''nmrms'')
         else
           Inr \<lparr>imm = mv\<lparr>imm_dm := dm, imm_w2 := w2, imm_U := U, imm_w := w, imm_V := V,
                          imm_nmrms := nmrms, imm_nmevib := nmevib\<rparr>,
                self_fnmrms = imm_fnmrms mv, self_nevib = imm_nevib mv,
                self_nint = imm_nint mv, self_nbasis = imm_nbasis mv,
                self_athresh = imm_athresh mv, self_nprim = imm_nprim mv,
                self_dof = 3 * imm_natoms mv,
                total_anhar_free_energy = 0, total_har_free_energy = 0,
                total_anhar_internal_energy = 0, total_har_internal_energy = 0,
                self_v0 = 0\<rparr>)"

text \<open>
  IMF.bind after the test of the size: apply_asr, then the eigen-solve and the modes.
  When apply_asr returns None (an \<open>asr\<close> that is none of the three modes)
  \<open>np.linalg.eigh\<close> raises on it.
\<close>

definition bind_projected ::
  "(mat \<Rightarrow> vec \<times> mat) \<Rightarrow> (mat \<Rightarrow> mat) \<Rightarrow> mover \<Rightarrow> mat \<Rightarrow> error + imf" where
  "bind_projected eigh eigvecs mv dm =
     (case apply_asr eigvecs mv dm of
        Inl e \<Rightarrow> Inl e
      | Inr (None, mv') \<Rightarrow> Inl (LinAlgError ''0-dimensional array given'')
      | Inr (Some r, mv') \<Rightarrow> bind_modes eigh mv' r)"

definition IMF_bind ::
  "(mat \<Rightarrow> vec \<times> mat) \<Rightarrow> (mat \<Rightarrow> mat) \<Rightarrow> mover \<Rightarrow> error + imf" where
  "IMF_bind eigh eigvecs mv =
     (case init_dynmatrix mv of
        Inl e \<Rightarrow> Inl e
      | Inr dm \<Rightarrow> bind_projected eigh eigvecs mv dm)"

subsection \<open>The VSCF fixed-point loop of VSCFSolver.step\<close>

text \<open>
  The test \<open>np.abs(acoupled - aold)/np.abs(aold) < self.athresh\<close>. With \<open>aold = 0\<close> numpy
  returns inf or nan, and the comparison is false.
\<close>

definition converged :: "real \<Rightarrow> real \<Rightarrow> real \<Rightarrow> bool" where
  "converged a aold athresh = (aold \<noteq> 0 \<and> \<bar>a - aold\<bar> / \<bar>aold\<bar> < athresh)"

record 's vscf_result =
  iters :: nat
  acoupled :: real
  aprev :: real
  final :: 's
  warned :: bool

text \<open>
  \<open>while True: iiter += 1; ...; if iiter > 5: (break on convergence; warn and break when
  iiter > 200); aold = acoupled.copy()\<close>. The body of one iteration (densities, mean-field
  potentials, the Hamiltonians and their spectra: bounded \<open>for\<close> loops only) is the
  parameter \<open>body\<close>: from the iteration number and the state carried between iterations
  it gives the free energy \<open>acoupled\<close> and the next state.
\<close>

function vscf_loop ::
  "(nat \<Rightarrow> 's \<Rightarrow> real \<times> 's) \<Rightarrow> real \<Rightarrow> nat \<Rightarrow> real \<Rightarrow> 's \<Rightarrow> 's vscf_result" where
  "vscf_loop body athresh iiter aold st =
     (if iiter + 1 > 5 then
        (if converged (fst (body (iiter + 1) st)) aold athresh then
           \<lparr>iters = iiter + 1, acoupled = fst (body (iiter + 1) st), aprev = aold,
            final = snd (body (iiter + 1) st), warned = False\<rparr>
         else if iiter + 1 > 200 then
           \<lparr>iters = iiter + 1, acoupled = fst (body (iiter + 1) st), aprev = aold,
            final = snd (body (iiter + 1) st), warned = True\<rparr>
         else vscf_loop body athresh (iiter + 1) (fst (body (iiter + 1) st))
                (snd (body (iiter + 1) st)))
      else vscf_loop body athresh (iiter + 1) (fst (body (iiter + 1) st))
             (snd (body (iiter + 1) st)))"
  by pat_completeness auto
termination
  by (relation "measure (\<lambda>(body, athresh, iiter, aold, st). 201 - iiter)") auto

declare vscf_loop.simps [simp del]

text \<open>What the loop guarantees about its result, from any iteration counter below the cap.\<close>

definition vscf_result_ok :: "real \<Rightarrow> nat \<Rightarrow> 's vscf_result \<Rightarrow> bool" where
  "vscf_result_ok athresh iiter r =
     (max 6 (iiter + 1) \<le> iters r \<and> iters r \<le> 201 \<and>
      warned r = (\<not> converged (acoupled r) (aprev r) athresh) \<and>
      (warned r \<longrightarrow> iters r = 201))"

text \<open>
  The mover as \<open>NormalModeMover.__init__\<close> leaves it when called with its default arguments
  (an empty \<open>dynmat\<close>, \<open>asr = "none"\<close>, \<open>nz = 0\<close>, ...), bound to a system of \<open>n\<close> atoms.
\<close>

definition default_mover :: "nat \<Rightarrow> vec \<Rightarrow> vec \<Rightarrow> vec \<Rightarrow> real \<Rightarrow> mover" where
  "default_mover n qs ms isms T =
     \<lparr>imm_asr = ''none'', imm_nz = 0, imm_natoms = n, imm_q = qs, imm_m = ms, imm_ism = isms,
      imm_dynmatrix = [], imm_fnmrms = 1, imm_nevib = 25, imm_nint = 101, imm_nbasis = 10,
      imm_athresh = 1 / 100, imm_nprim = 1, imm_temp = T, imm_dm = [], imm_w2 = [],
      imm_U = [], imm_w = [], imm_V = [], imm_nmrms = [], imm_nmevib = []\<rparr>"

subsection \<open>IMF.step: sampling the potential along one normal mode\<close>

text \<open>
  The force evaluator is outside the program: \<open>pots\<close> gives the potential energy of a
  configuration and \<open>f\<close> its force vector (\<open>forces.pots[0]\<close>, \<open>forces.f[0]\<close> at \<open>beads.q\<close>,
  \<open>dforces.pots[0]\<close>, \<open>dforces.f[0]\<close> at the displaced \<open>dbeads.q\<close>).
\<close>

record engine =
  pots :: "vec \<Rightarrow> real"
  f :: "vec \<Rightarrow> vec"

record samples =
  vlist :: vec
  flist :: vec
  qlist :: vec

definition mode_vector :: "imf \<Rightarrow> nat \<Rightarrow> vec" where
  \<comment> \<open>\<open>np.real(self.imm.V.T[step])\<close>\<close>
  "mode_vector st step = map (\<lambda>row. row ! step) (imm_V (imm st))"

definition dev :: "imf \<Rightarrow> nat \<Rightarrow> real \<Rightarrow> vec" where
  \<comment> \<open>\<open>np.real(self.imm.V.T[step]) * nmd * np.sqrt(self.nprim)\<close>\<close>
  "dev st step nmd = map (\<lambda>x. x * nmd * sqrt (self_nprim st)) (mode_vector st step)"

definition displaced :: "imf \<Rightarrow> nat \<Rightarrow> real \<Rightarrow> int \<Rightarrow> vec" where
  \<comment> \<open>\<open>self.imm.beads.q + dev * counter\<close>\<close>
  "displaced st step nmd counter =
     map2 (\<lambda>x d. x + d * real_of_int counter) (imm_q (imm st)) (dev st step nmd)"

definition equilibrium_v0 :: "engine \<Rightarrow> imf \<Rightarrow> real" where
  \<comment> \<open>\<open>v0 = dstrip(self.imm.forces.pots).copy()[0] / self.nprim\<close>\<close>
  "equilibrium_v0 eng st = pots eng (imm_q (imm st)) / self_nprim st"

definition equilibrium_f0 :: "engine \<Rightarrow> imf \<Rightarrow> nat \<Rightarrow> real" where
  "equilibrium_f0 eng st step = dot (f eng (imm_q (imm st))) (mode_vector st step) / self_nprim st"

definition harmonic :: "imf \<Rightarrow> nat \<Rightarrow> real \<Rightarrow> int \<Rightarrow> real" where
  \<comment> \<open>\<open>0.50 * self.imm.w2[step] * (nmd * counter)**2\<close>\<close>
  "harmonic st step nmd counter = 0.5 * imm_w2 (imm st) ! step * (nmd * real_of_int counter)\<^sup>2"

definition imf_dv :: "engine \<Rightarrow> imf \<Rightarrow> nat \<Rightarrow> real \<Rightarrow> real \<Rightarrow> int \<Rightarrow> real" where
  \<comment> \<open>the anharmonic component of the potential at the displaced configuration\<close>
  "imf_dv eng st step nmd v0 counter =
     pots eng (displaced st step nmd counter) / self_nprim st
       - harmonic st step nmd counter - v0"

definition imf_df :: "engine \<Rightarrow> imf \<Rightarrow> nat \<Rightarrow> real \<Rightarrow> int \<Rightarrow> real" where
  "imf_df eng st step nmd counter =
     dot (f eng (displaced st step nmd counter)) (mode_vector st step) / self_nprim st
       + imm_w2 (imm st) ! step * (nmd * real_of_int counter)"

definition append_sample :: "samples \<Rightarrow> real \<Rightarrow> real \<Rightarrow> real \<Rightarrow> samples" where
  \<comment> \<open>\<open>vlist.append(dv); flist.append(df); qlist.append(qv)\<close>\<close>
  "append_sample ls dv df qv =
     \<lparr>vlist = vlist ls @ [dv], flist = flist ls @ [df], qlist = qlist ls @ [qv]\<rparr>"

definition bailout :: "imf \<Rightarrow> nat \<Rightarrow> real \<Rightarrow> real \<Rightarrow> int \<Rightarrow> bool" where
  \<comment> \<open>\<open>self.nevib * self.imm.nmevib[step] < np.abs(0.50 * w2[step] * (nmd * counter)**2 + dv)\<close>\<close>
  "bailout st step nmd dv counter =
     (self_nevib st * imm_nmevib (imm st) ! step < \<bar>harmonic st step nmd counter + dv\<bar>)"

text \<open>
  The two \<open>while True\<close> loops that walk outward. They differ in the sign of the counter
  only: \<open>delta\<close> is \<open>delta_counter\<close> for the positive direction (\<open>counter += delta_counter\<close>
  from 1) and \<open>- delta_counter\<close> for the negative one (\<open>counter -= delta_counter\<close> from
  -1). The loop need not end: the result is None when it runs for ever. It returns the
  lists and the counter at the break.
\<close>

partial_function (option) explore ::
  "engine \<Rightarrow> imf \<Rightarrow> nat \<Rightarrow> real \<Rightarrow> real \<Rightarrow> int \<Rightarrow> int \<Rightarrow> samples \<Rightarrow> (samples \<times> int) option" where
  "explore eng st step nmd v0 delta counter ls =
     (if bailout st step nmd (imf_dv eng st step nmd v0 counter) counter then
        Some (append_sample ls (imf_dv eng st step nmd v0 counter)
                (imf_df eng st step nmd counter) (nmd * real_of_int counter), counter)
      else
        explore eng st step nmd v0 delta (counter + delta)
          (append_sample ls (imf_dv eng st step nmd v0 counter)
             (imf_df eng st step nmd counter) (nmd * real_of_int counter)))"

text \<open>
  The loop over the size of the basis. \<open>solve\<close> stands for interp1d followed by
  solve_schroedingers_equation (a cubic spline through the samples, the Hamiltonian in
  \<open>nnbasis\<close> oscillator functions, its spectrum by \<open>np.linalg.eigh\<close>): from the frequency,
  the size of the basis and the samples it gives the free and the internal energy.
\<close>

partial_function (option) basis_loop ::
  "(real \<Rightarrow> nat \<Rightarrow> samples \<Rightarrow> real \<times> real) \<Rightarrow> imf \<Rightarrow> nat \<Rightarrow> samples \<Rightarrow> nat \<Rightarrow> real
     \<Rightarrow> (real \<times> real) option" where
  "basis_loop solve st step ls bs_iter bs_prev =
     (if converged
           (fst (solve (imm_w (imm st) ! step) (max 1 (self_nbasis st - 5) + 5 * bs_iter) ls))
           bs_prev (self_athresh st)
      then Some (solve (imm_w (imm st) ! step) (max 1 (self_nbasis st - 5) + 5 * bs_iter) ls)
      else basis_loop solve st step ls (bs_iter + 1)
             (fst (solve (imm_w (imm st) ! step) (max 1 (self_nbasis st - 5) + 5 * bs_iter) ls)))"

definition ffnmrms :: "imf \<Rightarrow> nat \<Rightarrow> real" where
  \<comment> \<open>\<open>ffnmrms = self.fnmrms * 0.5**sampling_density_iter * 2.0\<close>\<close>
  "ffnmrms st sampling_density_iter = self_fnmrms st * 0.5 ^ sampling_density_iter * 2"

definition nmd_of :: "imf \<Rightarrow> nat \<Rightarrow> nat \<Rightarrow> real" where
  \<comment> \<open>\<open>nmd = ffnmrms * self.imm.nmrms[step]\<close>\<close>
  "nmd_of st step sampling_density_iter =
     ffnmrms st sampling_density_iter * imm_nmrms (imm st) ! step"

definition delta_counter :: "nat \<Rightarrow> int" where
  "delta_counter sampling_density_iter = (if sampling_density_iter = 0 then 1 else 2)"

text \<open>
  One pass of the outer loop at a given sampling density: the walk in the positive
  direction, the walk in the negative direction, then the loop over the basis.
\<close>

definition density_pass ::
  "engine \<Rightarrow> (real \<Rightarrow> nat \<Rightarrow> samples \<Rightarrow> real \<times> real) \<Rightarrow> imf \<Rightarrow> nat \<Rightarrow> real \<Rightarrow> nat \<Rightarrow> samples
     \<Rightarrow> (samples \<times> real \<times> real) option" where
  "density_pass eng solve st step v0 sdi ls =
     (case explore eng st step (nmd_of st step sdi) v0 (delta_counter sdi) 1 ls of
        None \<Rightarrow> None
      | Some (ls1, c1) \<Rightarrow>
          (case explore eng st step (nmd_of st step sdi) v0 (- delta_counter sdi) (- 1) ls1 of
             None \<Rightarrow> None
           | Some (ls2, c2) \<Rightarrow>
               (case basis_loop solve st step ls2 0 (1 / 10 ^ 20) of
                  None \<Rightarrow> None
                | Some AE \<Rightarrow> Some (ls2, AE))))"

record density_result =
  passes :: nat
  last_nmd :: real
  sampled :: samples
  Aanh :: vec
  Eanh :: vec

text \<open>
  The outer \<open>while True\<close> loop over the sampling density. \<open>sdi\<close> is
  \<open>sampling_density_iter\<close> after its increment (0 in the first pass). \<open>As\<close> and \<open>Es\<close> are
  the lists \<open>Aanh\<close> (which starts as \<open>[1e-20]\<close>) and \<open>Eanh\<close>; the test after the two appends
  compares \<open>Aanh[-1]\<close> with \<open>Aanh[-2]\<close>. The lists of samples are created before the loop
  and every pass appends to them.
\<close>

partial_function (option) density_loop ::
  "engine \<Rightarrow> (real \<Rightarrow> nat \<Rightarrow> samples \<Rightarrow> real \<times> real) \<Rightarrow> imf \<Rightarrow> nat \<Rightarrow> real \<Rightarrow> nat \<Rightarrow> samples
     \<Rightarrow> vec \<Rightarrow> vec \<Rightarrow> density_result option" where
  "density_loop eng solve st step v0 sdi ls As Es =
     (case density_pass eng solve st step v0 sdi ls of
        None \<Rightarrow> None
      | Some (ls', A, E) \<Rightarrow>
          if converged (last (As @ [A])) (last (butlast (As @ [A]))) (self_athresh st) then
            Some \<lparr>passes = sdi + 1, last_nmd = nmd_of st step sdi, sampled = ls',
                  Aanh = As @ [A], Eanh = Es @ [E]\<rparr>
          else density_loop eng solve st step v0 (sdi + 1) ls' (As @ [A]) (Es @ [E]))"

definition logsumexp :: "vec \<Rightarrow> real" where
  \<comment> \<open>\<open>scipy.misc.logsumexp\<close>\<close>
  "logsumexp xs = ln (sum_list (map exp xs))"

definition Ahar :: "imf \<Rightarrow> nat \<Rightarrow> real" where
  "Ahar st step =
     - logsumexp (map (\<lambda>i. - 1 * sqrt (imm_w2 (imm st) ! step) * (0.5 + real i)
                              / imm_temp (imm st)) [0..<self_nbasis st])
       * imm_temp (imm st)"

definition Zhar :: "imf \<Rightarrow> nat \<Rightarrow> real" where
  "Zhar st step =
     sum_list (map (\<lambda>i. exp (- 1 * sqrt (imm_w2 (imm st) ! step) * (0.5 + real i)
                              / imm_temp (imm st))) [0..<self_nbasis st])"

definition Ehar :: "imf \<Rightarrow> nat \<Rightarrow> real" where
  "Ehar st step =
     sum_list (map (\<lambda>i. sqrt (imm_w2 (imm st) ! step) * (0.5 + real i)
                      * exp (- 1 * sqrt (imm_w2 (imm st) ! step) * (0.5 + real i)
                              / imm_temp (imm st))) [0..<self_nbasis st])
       / Zhar st step"

text \<open>
  IMF.step for the mode \<open>step\<close>, which NormalModeMover.step calls with
  \<open>step < 3 * natoms\<close>. A zero mode returns at once, a mode of frequency below
  \<open>9.1126705e-06\<close> is counted in \<open>nz\<close> and returns; any other mode is sampled. The result is
  None when one of the loops runs for ever; otherwise the calculator after the step
  and, for a sampled mode, what the loop over the density produced (the lists that the
  step writes to its two output files).
\<close>

definition IMF_step ::
  "engine \<Rightarrow> (real \<Rightarrow> nat \<Rightarrow> samples \<Rightarrow> real \<times> real) \<Rightarrow> imf \<Rightarrow> nat
     \<Rightarrow> (imf \<times> density_result option) option" where
  "IMF_step eng solve st step =
     (if step < imm_nz (imm st) then Some (st, None)
      else if imm_w (imm st) ! step < 91126705 / 10 ^ 13 then
        Some (st\<lparr>imm := (imm st)\<lparr>imm_nz := imm_nz (imm st) + 1\<rparr>\<rparr>, None)
      else
        (case density_loop eng solve st step (equilibrium_v0 eng st) 0
                \<lparr>vlist = [0], flist = [equilibrium_f0 eng st step], qlist = [0]\<rparr>
                [1 / 10 ^ 20] [] of
           None \<Rightarrow> None
         | Some r \<Rightarrow>
             Some (st\<lparr>self_v0 := equilibrium_v0 eng st,
                      total_anhar_free_energy := total_anhar_free_energy st + last (Aanh r),
                      total_har_free_energy := total_har_free_energy st + Ahar st step,
                      total_anhar_internal_energy :=
                        total_anhar_internal_energy st + last (Eanh r),
                      total_har_internal_energy :=
                        total_har_internal_energy st + Ehar st step\<rparr>,
                   Some r)))"

text \<open>
  For the statements about the walk: the total energy that the bailout test looks at, and
  the lists after the samples at \<open>counter\<close>, \<open>counter + delta\<close>, ..., \<open>counter + k * delta\<close>
  were appended to \<open>ls\<close>.
\<close>

definition total_energy :: "engine \<Rightarrow> imf \<Rightarrow> nat \<Rightarrow> real \<Rightarrow> real \<Rightarrow> int \<Rightarrow> real" where
  "total_energy eng st step nmd v0 counter =
     harmonic st step nmd counter + imf_dv eng st step nmd v0 counter"

definition walk ::
  "engine \<Rightarrow> imf \<Rightarrow> nat \<Rightarrow> real \<Rightarrow> real \<Rightarrow> int \<Rightarrow> int \<Rightarrow> samples \<Rightarrow> nat \<Rightarrow> samples" where
  "walk eng st step nmd v0 delta counter ls k =
     \<lparr>vlist = vlist ls @ map (\<lambda>j. imf_dv eng st step nmd v0 (counter + int j * delta)) [0..<Suc k],
      flist = flist ls @ map (\<lambda>j. imf_df eng st step nmd (counter + int j * delta)) [0..<Suc k],
      qlist = qlist ls @ map (\<lambda>j. nmd * real_of_int (counter + int j * delta)) [0..<Suc k]\<rparr>"

subsection \<open>A system of one atom\<close>

text \<open>
  A small system on which the definitions can be run: one atom of mass 1 at the origin,
  the dynamical matrix \<open>1/4\<close> times the identity (so \<open>w = 1/2\<close>, \<open>nmrms = 1\<close> and
  \<open>nmevib = 1/4\<close> for each mode), \<open>fnmrms = 1/2\<close> and \<open>nevib = 4\<close>; the potential is the
  square of the first coordinate. \<open>diag_eigh\<close> is an eigen-solver for diagonal matrices.
\<close>

definition diag_eigh :: "mat \<Rightarrow> vec \<times> mat" where
  "diag_eigh A = (map (\<lambda>i. A ! i ! i) [0..<length A], eye (length A))"

definition one_atom :: mover where
  "one_atom = (default_mover 1 [0, 0, 0] [1] [1, 1, 1] 1)
     \<lparr>imm_dynmatrix := [1/4, 0, 0, 0, 1/4, 0, 0, 0, 1/4], imm_fnmrms := 1/2, imm_nevib := 4\<rparr>"

definition one_atom_imf :: imf where
  "one_atom_imf = projr (bind_modes diag_eigh one_atom [[1/4, 0, 0], [0, 1/4, 0], [0, 0, 1/4]])"

definition well :: engine where
  "well = \<lparr>pots = (\<lambda>x. (x ! 0)\<^sup>2), f = (\<lambda>x. [- 2 * x ! 0, 0, 0])\<rparr>"

text \<open>
  What the loop over the density guarantees when it returns \<open>r\<close>, having been entered
  with the counter \<open>sdi\<close> and the list \<open>As\<close>: it made at least one pass, the last pass used
  the step of its counter, \<open>Aanh\<close> grew by one entry for each pass, the last two entries
  meet the threshold and no earlier entry that the loop added meets it against the one
  before.
\<close>

definition density_post :: "imf \<Rightarrow> nat \<Rightarrow> nat \<Rightarrow> vec \<Rightarrow> density_result \<Rightarrow> bool" where
  "density_post st step sdi As r =
     (sdi < passes r \<and>
      last_nmd r = nmd_of st step (passes r - 1) \<and>
      take (length As) (Aanh r) = As \<and>
      length (Aanh r) = length As + (passes r - sdi) \<and>
      converged (last (Aanh r)) (last (butlast (Aanh r))) (self_athresh st) \<and>
      (\<forall>i. length As \<le> i \<and> Suc i < length (Aanh r) \<longrightarrow>
           \<not> converged (Aanh r ! i) (Aanh r ! (i - 1)) (self_athresh st)))"

text \<open>A stand-in for the spectral solve that returns the same energies for any input.\<close>

definition const_solve :: "real \<Rightarrow> nat \<Rightarrow> samples \<Rightarrow> real \<times> real" where
  "const_solve hw n ls = (1, 1)"

subsection \<open>PC: the preconditioner\<close>

text \<open>
  PC adds the preconditioned position and frequencies to the calculator. PC.bind runs
  IMF.bind and then overwrites \<open>self.fnmrms\<close> with the constant 2.0.
\<close>

record pc =
  pc_imf :: imf
  qpc :: vec
  w2pc :: vec

definition PC_bind :: "(mat \<Rightarrow> vec \<times> mat) \<Rightarrow> (mat \<Rightarrow> mat) \<Rightarrow> mover \<Rightarrow> error + pc" where
  "PC_bind eigh eigvecs mv =
     (case IMF_bind eigh eigvecs mv of
        Inl e \<Rightarrow> Inl e
      | Inr st \<Rightarrow>
          Inr \<lparr>pc_imf = st\<lparr>self_fnmrms := 2\<rparr>,
               qpc = replicate (length (imm_q (imm st))) 0,
               w2pc = replicate (length (imm_w2 (imm st))) 0\<rparr>)"

definition pc_dv :: "engine \<Rightarrow> imf \<Rightarrow> nat \<Rightarrow> real \<Rightarrow> real \<Rightarrow> int \<Rightarrow> real" where
  \<comment> \<open>\<open>dv = dstrip(self.imm.dforces.pots).copy()[0] / self.nprim - v0\<close>\<close>
  "pc_dv eng st step nmd v0 counter =
     pots eng (displaced st step nmd counter) / self_nprim st - v0"

definition pc_df :: "engine \<Rightarrow> imf \<Rightarrow> nat \<Rightarrow> real \<Rightarrow> int \<Rightarrow> real" where
  "pc_df eng st step nmd counter =
     dot (f eng (displaced st step nmd counter)) (mode_vector st step) / self_nprim st"

definition pc_exceeds :: "engine \<Rightarrow> imf \<Rightarrow> nat \<Rightarrow> real \<Rightarrow> real \<Rightarrow> real \<Rightarrow> int \<Rightarrow> bool" where
  \<comment> \<open>\<open>dv + 0.50 * w2[step] * (nmd * counter)**2 > self.imm.nmevib[step] * ffnmrms * 0.75\<close>\<close>
  "pc_exceeds eng st step nmd ffn v0 counter =
     (pc_dv eng st step nmd v0 counter + harmonic st step nmd counter
        > imm_nmevib (imm st) ! step * ffn * 0.75)"

text \<open>
  The two loops of PC.step (\<open>counter += 1.0\<close> from 1, \<open>counter -= 1.0\<close> from -1): nothing is
  stored until the test holds; then the sample is appended and the loop ends. The
  counter becomes a float in the source; its values stay whole numbers. The result is
  the sample and the counter at the break, or None when the loop runs for ever.
\<close>

partial_function (option) pc_explore ::
  "engine \<Rightarrow> imf \<Rightarrow> nat \<Rightarrow> real \<Rightarrow> real \<Rightarrow> real \<Rightarrow> int \<Rightarrow> int \<Rightarrow> (real \<times> real \<times> real \<times> int) option"
  where
  "pc_explore eng st step nmd ffn v0 delta counter =
     (if pc_exceeds eng st step nmd ffn v0 counter then
        Some (pc_dv eng st step nmd v0 counter, pc_df eng st step nmd counter,
              nmd * real_of_int counter, counter)
      else pc_explore eng st step nmd ffn v0 delta (counter + delta))"

text \<open>
  PC.step. \<open>polyfit\<close> stands for \<open>np.polyfit(x = qlist, y = vlist, deg = 2)\<close> and gives the
  coefficients \<open>a, b, c\<close>. A mode with \<open>abs(w2[step]) < 1e-10\<close> is skipped. The shift
  \<open>-b / a / 2.0\<close> divides by \<open>a\<close>: with \<open>a = 0\<close> it is an infinity or a NaN, which is added
  to \<open>qpc\<close>. The result is None when one of the two loops runs for ever.
\<close>

definition PC_step ::
  "engine \<Rightarrow> (vec \<Rightarrow> vec \<Rightarrow> real \<times> real \<times> real) \<Rightarrow> pc \<Rightarrow> nat
     \<Rightarrow> (error + pc \<times> samples option) option"
  where
  "PC_step eng polyfit p step =
     (let st = pc_imf p;
          v0 = equilibrium_v0 eng st;
          f0 = equilibrium_f0 eng st step;
          ffn = self_fnmrms st;
          nmd = ffn * imm_nmrms (imm st) ! step
      in if \<bar>imm_w2 (imm st) ! step\<bar> < 1 / 10 ^ 10 then Some (Inr (p, None))
         else
           (case pc_explore eng st step nmd ffn v0 1 1 of
              None \<Rightarrow> None
            | Some (dv1, df1, q1, c1) \<Rightarrow>
                (case pc_explore eng st step nmd ffn v0 (- 1) (- 1) of
                   None \<Rightarrow> None
                 | Some (dv2, df2, q2, c2) \<Rightarrow>
                     (let ls = \<lparr>vlist = [0, dv1, dv2], flist = [f0, df1, df2],
                                qlist = [0, q1, q2]\<rparr>;
                          a = fst (polyfit (qlist ls) (vlist ls));
                          b = fst (snd (polyfit (qlist ls) (vlist ls)))
                      in if a = 0 then Some (Inl (NonFinite ''qpc''))
                         else
                           Some (Inr (p\<lparr>pc_imf := st\<lparr>self_v0 := v0\<rparr>,
                                 qpc := map2 (\<lambda>x y. x + y) (qpc p)
                                          (map (\<lambda>x. x * (- b / a / 2) * sqrt (self_nprim st))
                                             (mode_vector st step)),
                                 w2pc := (w2pc p)[step := 2 * a]\<rparr>,
                               Some ls))))))"

text \<open>
  To run PC.step on the system of one atom: the parabola through three points, which
  is what a least-squares fit of degree 2 returns for three samples at distinct
  displacements; a potential that falls off along the first coordinate; and the
  preconditioner as PC.bind leaves it.
\<close>

definition polyfit3 :: "vec \<Rightarrow> vec \<Rightarrow> real \<times> real \<times> real" where
  "polyfit3 xs ys =
     (let x0 = xs ! 0; x1 = xs ! 1; x2 = xs ! 2;
          l0 = ys ! 0 / ((x0 - x1) * (x0 - x2));
          l1 = ys ! 1 / ((x1 - x0) * (x1 - x2));
          l2 = ys ! 2 / ((x2 - x0) * (x2 - x1))
      in (l0 + l1 + l2,
          - (l0 * (x1 + x2) + l1 * (x0 + x2) + l2 * (x0 + x1)),
          l0 * x1 * x2 + l1 * x0 * x2 + l2 * x0 * x1))"

definition hill :: engine where
  "hill = \<lparr>pots = (\<lambda>x. - (x ! 0)\<^sup>2 / 16), f = (\<lambda>x. [x ! 0 / 8, 0, 0])\<rparr>"

definition one_atom_pc :: pc where
  "one_atom_pc = \<lparr>pc_imf = one_atom_imf\<lparr>self_fnmrms := 2\<rparr>, qpc = [0, 0, 0], w2pc = [0, 0, 0]\<rparr>"

subsection \<open>The files between VSCFMapper and VSCFSolver\<close>

text \<open>
  The working directory is a map from file names to tables of numbers: what
  \<open>np.savetxt\<close> wrote and \<open>np.loadtxt\<close> reads back, row by row. \<open>os.path.exists\<close> is the test
  that the name is in the domain of the map.
\<close>

type_synonym files = "string \<rightharpoonup> mat"

fun str_nat :: "nat \<Rightarrow> string" where
  \<comment> \<open>Python's \<open>str\<close> of a non-negative integer\<close>
  "str_nat n =
     (if n < 10 then [''0123456789'' ! n]
      else str_nat (n div 10) @ [''0123456789'' ! (n mod 10)])"

declare str_nat.simps [simp del]

definition column :: "nat \<Rightarrow> mat \<Rightarrow> vec" where
  \<comment> \<open>\<open>data.T[k]\<close>\<close>
  "column k t = map (\<lambda>row. row ! k) t"

definition as_ints :: "mat \<Rightarrow> nat list" where
  \<comment> \<open>a file of one whole number in each row, read as a list of indices\<close>
  "as_ints t = map (\<lambda>row. nat \<lfloor>row ! 0\<rfloor>) t"


definition vindep_file :: "nat \<Rightarrow> string" where
  "vindep_file inm = ''vindep.'' @ str_nat inm @ ''.dat''"

definition vcoupled_file :: "nat \<Rightarrow> nat \<Rightarrow> string" where
  "vcoupled_file inm jnm = ''vcoupled.'' @ str_nat inm @ ''.'' @ str_nat jnm @ ''.dat''"

definition vtriplet_file :: "nat \<Rightarrow> nat \<Rightarrow> nat \<Rightarrow> string" where
  "vtriplet_file inm jnm knm =
     ''vtriplet.'' @ str_nat inm @ ''.'' @ str_nat jnm @ ''.'' @ str_nat knm @ ''.dat''"

subsection \<open>VSCFSolver.step: reading the files\<close>

text \<open>
  Modelled from the spec: \<open>softexit.trigger\<close> is defined in \<open>ipi.utils.softexit\<close>, which is
  not among the sources. The spec calls it the termination signal, a "stop the run"
  notification, and lists a missing file among the fatal conditions that "stop the run
  with a clear message": the call ends the run with its message and does not return to
  the statement after it.
\<close>

definition softexit_trigger :: "string \<Rightarrow> error" where
  "softexit_trigger message = SoftExit message"

record loaded =
  inms :: "nat list"
  nptsmin :: vec
  nptsmax :: vec
  npts :: vec
  v0_offset :: real
  igrid :: mat
  vigrid :: mat
  vijgrid :: "nat \<times> nat \<Rightarrow> mat"








subsection \<open>VSCFSolver.step: the MP2 correction\<close>

text \<open>
  The arrays of the MP2 block, indexed by the number of a mode, are functions of it:
  \<open>evecs knm k\<close> is \<open>evecsvscf[knm][k]\<close>, \<open>ss istate knm\<close> is \<open>s[istate][knm]\<close>, \<open>Psi inm\<close> and
  \<open>Psj inm\<close> are \<open>Psigrid[inm]\<close> and \<open>Psjgrid[inm]\<close> (the wave functions of the modes in the
  states \<open>istate\<close> and \<open>jstate\<close> on the integration grid), \<open>dvmfti inm\<close> is the mean-field
  potential \<open>dvmfti[inm]\<close> and \<open>vij (inm, jnm)\<close> the coupling grid \<open>vijgrid[inm][jnm]\<close>.
\<close>

definition overlap :: "(nat \<Rightarrow> nat \<Rightarrow> vec) \<Rightarrow> (nat \<Rightarrow> nat \<Rightarrow> nat) \<Rightarrow> nat \<Rightarrow> nat \<Rightarrow> nat \<Rightarrow> real" where
  \<comment> \<open>\<open>np.dot(evecsvscf[knm][s[jstate][knm]], evecsvscf[knm][s[istate][knm]])\<close>\<close>
  "overlap evecs ss istate jstate knm =
     dot (evecs knm (ss jstate knm)) (evecs knm (ss istate knm))"

definition matel1 ::
  "(nat \<Rightarrow> nat \<Rightarrow> vec) \<Rightarrow> (nat \<Rightarrow> nat \<Rightarrow> nat) \<Rightarrow> nat list \<Rightarrow> nat \<Rightarrow> nat \<Rightarrow> nat \<Rightarrow> nat \<Rightarrow> real" where
  \<comment> \<open>the product over the modes \<open>knm\<close> other than \<open>inm\<close> and \<open>jnm\<close>, from 1.0\<close>
  "matel1 evecs ss modes istate jstate inm jnm =
     fold (\<lambda>knm acc. if knm = inm \<or> knm = jnm then acc
                      else acc * overlap evecs ss istate jstate knm) modes 1"

definition matel2 :: "(nat \<Rightarrow> vec) \<Rightarrow> (nat \<Rightarrow> vec) \<Rightarrow> (nat \<times> nat \<Rightarrow> mat) \<Rightarrow> nat \<Rightarrow> nat \<Rightarrow> real" where
  \<comment> \<open>\<open>np.sum(np.outer(Psjgrid[inm], Psjgrid[jnm]) * vijgrid[inm][jnm].T
        * np.outer(Psigrid[inm], Psigrid[jnm]))\<close>\<close>
  "matel2 Psi Psj vij inm jnm =
     (\<Sum>a<length (Psj inm). \<Sum>b<length (Psj jnm).
        (Psj inm ! a * Psj jnm ! b) * vij (inm, jnm) ! b ! a * (Psi inm ! a * Psi jnm ! b))"

definition matel3 ::
  "(nat \<Rightarrow> nat \<Rightarrow> vec) \<Rightarrow> (nat \<Rightarrow> nat \<Rightarrow> nat) \<Rightarrow> (nat \<Rightarrow> vec) \<Rightarrow> (nat \<Rightarrow> vec) \<Rightarrow> (nat \<Rightarrow> vec)
     \<Rightarrow> nat list \<Rightarrow> nat \<Rightarrow> nat \<Rightarrow> nat \<Rightarrow> real" where
  \<comment> \<open>the product over the modes other than \<open>inm\<close>, times
      \<open>np.sum(Psjgrid[inm] * dvmfti[inm] * Psigrid[inm])\<close>\<close>
  "matel3 evecs ss Psi Psj dvmfti modes istate jstate inm =
     fold (\<lambda>knm acc. if knm = inm then acc else acc * overlap evecs ss istate jstate knm) modes 1
       * (\<Sum>a<length (Psj inm). Psj inm ! a * dvmfti inm ! a * Psi inm ! a)"

text \<open>
  One round of the loop \<open>for inm in inms\<close> on the pair \<open>(matelcpl, matelmft)\<close>: the inner
  loop over \<open>jnm\<close> adds \<open>0.5 * matel1 * matel2\<close> to \<open>matelcpl\<close> for each other mode; then
  \<open>matel3\<close> is computed and the statement \<open>matelmft += matelmft\<close> is executed.
\<close>

definition matel_round ::
  "(nat \<Rightarrow> nat \<Rightarrow> vec) \<Rightarrow> (nat \<Rightarrow> nat \<Rightarrow> nat) \<Rightarrow> (nat \<Rightarrow> vec) \<Rightarrow> (nat \<Rightarrow> vec) \<Rightarrow> (nat \<Rightarrow> vec)
     \<Rightarrow> (nat \<times> nat \<Rightarrow> mat) \<Rightarrow> nat list \<Rightarrow> nat \<Rightarrow> nat \<Rightarrow> nat \<Rightarrow> real \<times> real \<Rightarrow> real \<times> real" where
  "matel_round evecs ss Psi Psj dvmfti vij modes istate jstate inm acc =
     (let matelcpl =
            fold (\<lambda>jnm c. if jnm = inm then c
                           else c + 0.5 * matel1 evecs ss modes istate jstate inm jnm
                                      * matel2 Psi Psj vij inm jnm)
              modes (fst acc);
          matel3' = matel3 evecs ss Psi Psj dvmfti modes istate jstate inm;
          matelmft = snd acc + snd acc
      in (matelcpl, matelmft))"

definition matel_parts ::
  "(nat \<Rightarrow> nat \<Rightarrow> vec) \<Rightarrow> (nat \<Rightarrow> nat \<Rightarrow> nat) \<Rightarrow> (nat \<Rightarrow> vec) \<Rightarrow> (nat \<Rightarrow> vec) \<Rightarrow> (nat \<Rightarrow> vec)
     \<Rightarrow> (nat \<times> nat \<Rightarrow> mat) \<Rightarrow> nat list \<Rightarrow> nat \<Rightarrow> nat \<Rightarrow> real \<times> real" where
  \<comment> \<open>\<open>(matelcpl, matelmft)\<close> after the loop, both started at 0.0\<close>
  "matel_parts evecs ss Psi Psj dvmfti vij modes istate jstate =
     fold (matel_round evecs ss Psi Psj dvmfti vij modes istate jstate) modes (0, 0)"

definition matel ::
  "(nat \<Rightarrow> nat \<Rightarrow> vec) \<Rightarrow> (nat \<Rightarrow> nat \<Rightarrow> nat) \<Rightarrow> (nat \<Rightarrow> vec) \<Rightarrow> (nat \<Rightarrow> vec) \<Rightarrow> (nat \<Rightarrow> vec)
     \<Rightarrow> (nat \<times> nat \<Rightarrow> mat) \<Rightarrow> nat list \<Rightarrow> nat \<Rightarrow> nat \<Rightarrow> real" where
  \<comment> \<open>\<open>matel = matelcpl - matelmft\<close>\<close>
  "matel evecs ss Psi Psj dvmfti vij modes istate jstate =
     fst (matel_parts evecs ss Psi Psj dvmfti vij modes istate jstate)
       - snd (matel_parts evecs ss Psi Psj dvmfti vij modes istate jstate)"

text \<open>
  The wave function of the mode \<open>inm\<close> in the state \<open>state\<close>, the mean-field potential of the
  mode \<open>inm\<close> for the state \<open>istate\<close>, the total energy of a state, and the loops over
  \<open>jstate\<close> and \<open>istate\<close> that give the list \<open>devaltotcoupledmp2\<close>. \<open>psigrid inm\<close> is the
  table of the basis functions of the mode on the grid (\<open>nint\<close> rows, \<open>nbasis\<close> columns),
  \<open>evalsvscf inm\<close> the list of its VSCF eigenvalues. There are two divisions. The wave
  functions divide each column of \<open>psigrid[inm]\<close> by its norm: \<open>zero_column\<close> is the test
  that some column has the norm 0. The correction of a state divides by the difference of
  two total energies. The loop over \<open>jstate\<close> makes both tests before it divides.
\<close>

definition zero_column :: "mat \<Rightarrow> bool" where
  \<comment> \<open>\<open>np.sqrt(np.sum(psigrid[inm]**2, axis=0))\<close> has an entry 0\<close>
  "zero_column A =
     (\<exists>row \<in> set A. \<exists>j \<in> set [0..<length row]. (\<Sum>i<length A. (A ! i ! j)\<^sup>2) = 0)"

definition col_normalised :: "mat \<Rightarrow> mat" where
  \<comment> \<open>\<open>psigrid[inm] / np.sqrt(np.sum(psigrid[inm]**2, axis=0))\<close>, for a table without a
      column of norm 0\<close>
  "col_normalised A =
     map (\<lambda>row. map (\<lambda>j. row ! j / sqrt (\<Sum>i<length A. (A ! i ! j)\<^sup>2)) [0..<length row]) A"

definition Psgrid ::
  "(nat \<Rightarrow> mat) \<Rightarrow> (nat \<Rightarrow> nat \<Rightarrow> vec) \<Rightarrow> (nat \<Rightarrow> nat \<Rightarrow> nat) \<Rightarrow> nat \<Rightarrow> nat \<Rightarrow> vec" where
  "Psgrid psigrid evecs ss state inm =
     mat_vec (col_normalised (psigrid inm)) (evecs inm (ss state inm))"

definition dvmft ::
  "(nat \<Rightarrow> mat) \<Rightarrow> (nat \<Rightarrow> nat \<Rightarrow> vec) \<Rightarrow> (nat \<Rightarrow> nat \<Rightarrow> nat) \<Rightarrow> (nat \<times> nat \<Rightarrow> mat) \<Rightarrow> nat
     \<Rightarrow> nat list \<Rightarrow> nat \<Rightarrow> nat \<Rightarrow> vec" where
  \<comment> \<open>\<open>vmft += np.dot(vijgrid[inm][jnm].T, psjgrid**2)\<close> for each \<open>jnm\<close> other than \<open>inm\<close>,
      from \<open>np.zeros(self.nint)\<close>\<close>
  "dvmft psigrid evecs ss vij n modes istate inm =
     fold (\<lambda>jnm vmft. if jnm = inm then vmft
             else map2 (\<lambda>x y. x + y) vmft
                    (mat_vec (transpose_m (vij (inm, jnm)))
                       (map (\<lambda>x. x\<^sup>2) (Psgrid psigrid evecs ss istate jnm))))
       modes (replicate n 0)"

definition evaltotcoupled :: "(nat \<Rightarrow> vec) \<Rightarrow> (nat \<Rightarrow> nat \<Rightarrow> nat) \<Rightarrow> nat list \<Rightarrow> nat \<Rightarrow> real" where
  \<comment> \<open>\<open>np.sum([evalsvscf[inm][s[istate][inm]] for inm in inms])\<close>\<close>
  "evaltotcoupled evalsvscf ss modes istate =
     sum_list (map (\<lambda>inm. evalsvscf inm ! ss istate inm) modes)"

definition jdemptwo ::
  "(nat \<Rightarrow> mat) \<Rightarrow> (nat \<Rightarrow> vec) \<Rightarrow> (nat \<Rightarrow> nat \<Rightarrow> vec) \<Rightarrow> (nat \<Rightarrow> nat \<Rightarrow> nat) \<Rightarrow> (nat \<times> nat \<Rightarrow> mat)
     \<Rightarrow> nat \<Rightarrow> nat list \<Rightarrow> nat \<Rightarrow> nat \<Rightarrow> real" where
  \<comment> \<open>\<open>matel**2 / (evaltotcoupled[istate] - evaltotcoupled[jstate])\<close>, for two states of
      different total energies\<close>
  "jdemptwo psigrid evalsvscf evecs ss vij n modes istate jstate =
     (matel evecs ss (Psgrid psigrid evecs ss istate) (Psgrid psigrid evecs ss jstate)
        (dvmft psigrid evecs ss vij n modes istate) vij modes istate jstate)\<^sup>2
       / (evaltotcoupled evalsvscf ss modes istate - evaltotcoupled evalsvscf ss modes jstate)"

definition demptwo ::
  "(nat \<Rightarrow> mat) \<Rightarrow> (nat \<Rightarrow> vec) \<Rightarrow> (nat \<Rightarrow> nat \<Rightarrow> vec) \<Rightarrow> (nat \<Rightarrow> nat \<Rightarrow> nat) \<Rightarrow> (nat \<times> nat \<Rightarrow> mat)
     \<Rightarrow> nat \<Rightarrow> nat list \<Rightarrow> nat \<Rightarrow> nat \<Rightarrow> error + real" where
  \<comment> \<open>the body of \<open>for istate in range(nstates)\<close>: \<open>demptwo\<close> from 0.0, one term added for
      each other state\<close>
  "demptwo psigrid evalsvscf evecs ss vij n modes nstates istate =
     (if \<exists>inm \<in> set modes. zero_column (psigrid inm) then Inl (NonFinite ''Psigrid'')
      else
        fold (\<lambda>jstate d.
                case d of
                  Inl e \<Rightarrow> Inl e
                | Inr x \<Rightarrow>
                    if jstate = istate then Inr x
                    else if evaltotcoupled evalsvscf ss modes istate
                              = evaltotcoupled evalsvscf ss modes jstate
                    then Inl (NonFinite ''jdemptwo'')
                    else Inr (x + jdemptwo psigrid evalsvscf evecs ss vij n modes istate jstate))
          [0..<nstates] (Inr 0))"

fun collect :: "(error + 'a) list \<Rightarrow> error + 'a list" where
  \<comment> \<open>the results of the rounds of a loop, up to the first that does not return\<close>
  "collect [] = Inr []"
| "collect (Inl e # rs) = Inl e"
| "collect (Inr x # rs) = (case collect rs of Inl e \<Rightarrow> Inl e | Inr xs \<Rightarrow> Inr (x # xs))"

definition devaltotcoupledmp2 ::
  "(nat \<Rightarrow> mat) \<Rightarrow> (nat \<Rightarrow> vec) \<Rightarrow> (nat \<Rightarrow> nat \<Rightarrow> vec) \<Rightarrow> (nat \<Rightarrow> nat \<Rightarrow> nat) \<Rightarrow> (nat \<times> nat \<Rightarrow> mat)
     \<Rightarrow> nat \<Rightarrow> nat list \<Rightarrow> nat \<Rightarrow> error + vec" where
  \<comment> \<open>one entry for each \<open>istate in range(nstates)\<close>\<close>
  "devaltotcoupledmp2 psigrid evalsvscf evecs ss vij n modes nstates =
     collect (map (demptwo psigrid evalsvscf evecs ss vij n modes nstates) [0..<nstates])"

subsection \<open>VSCFSolver.step: the reduced manifold of states for MP2\<close>

text \<open>
  With \<open>mptwo\<close> set, the solver enumerates the states of the whole system, a state being
  the tuple of the basis indices of the modes of \<open>inms\<close> (a list here). \<open>evals inm\<close> is the
  list of the independent-mode eigenvalues of the mode, \<open>thr\<close> is \<open>nkbt * temp\<close>.
\<close>

definition nmbasis :: "(nat \<Rightarrow> vec) \<Rightarrow> nat \<Rightarrow> real \<Rightarrow> nat \<Rightarrow> nat list" where
  \<comment> \<open>\<open>range(nbasiscurr)\<close>, \<open>nbasiscurr\<close> counting the \<open>ibasis\<close> with
      \<open>evals[inm][ibasis] - evals[inm][0] < nkbt * temp\<close>\<close>
  "nmbasis evals nb thr inm =
     [0..<length (filter (\<lambda>ibasis. evals inm ! ibasis - evals inm ! 0 < thr) [0..<nb])]"

definition excitation :: "(nat \<Rightarrow> vec) \<Rightarrow> nat list \<Rightarrow> nat \<Rightarrow> nat list \<Rightarrow> real" where
  \<comment> \<open>\<open>e\<close>: the energy of the first \<open>inm + 1\<close> modes in \<open>state\<close> minus that in their
      lowest states\<close>
  "excitation evals modes inm state =
     sum_list (map (\<lambda>jnm. evals (modes ! jnm) ! (state ! jnm)) [0..<inm + 1])
       - sum_list (map (\<lambda>jnm. evals (modes ! jnm) ! 0) [0..<inm + 1])"

definition too_many :: string where
  "too_many = ''TOO MANY (>1e3) POSSIBLE GLOBAL VIBRATIONAL STATES''"

definition among_first :: "nat \<Rightarrow> nat \<Rightarrow> string" where
  "among_first k n =
     ''AMONG THE FIRST '' @ str_nat k @ '' MODES WE CONSIDER '' @ str_nat n @ '' STATE(S)''"

text \<open>
  One round of \<open>for inm in range(len(inms))\<close> for \<open>inm > 0\<close>: the product of the states so
  far with the basis indices of the next mode (\<open>itertools.product\<close>, the new index
  appended to the tuple), the states with \<open>e > nkbt * temp\<close> dropped, and the line that
  is printed about the number of states kept.
\<close>

definition manifold_round ::
  "(nat \<Rightarrow> vec) \<Rightarrow> nat list \<Rightarrow> nat \<Rightarrow> real \<Rightarrow> nat \<Rightarrow> nat list list \<times> string list
     \<Rightarrow> nat list list \<times> string list" where
  "manifold_round evals modes nb thr inm acc =
     (let stmp = concat (map (\<lambda>state. map (\<lambda>b. state @ [b]) (nmbasis evals nb thr (modes ! inm)))
                          (fst acc));
          sred = filter (\<lambda>state. \<not> (excitation evals modes inm state > thr)) stmp
      in (sred,
          snd acc @ [if length sred > 1000 then too_many
                     else among_first (inm + 1) (length sred)]))"

text \<open>
  The enumeration: \<open>sred = nmbasis[0]\<close>, then one round for each further mode. It
  returns the states and the lines printed. An empty \<open>inms\<close> raises IndexError at
  \<open>nmbasis[0]\<close>.
\<close>

definition manifold ::
  "(nat \<Rightarrow> vec) \<Rightarrow> nat list \<Rightarrow> nat \<Rightarrow> real \<Rightarrow> error + nat list list \<times> string list" where
  "manifold evals modes nb thr =
     (if modes = [] then Inl (IndexError ''list index out of range'')
      else Inr (fold (manifold_round evals modes nb thr) [1..<length modes]
                  (map (\<lambda>b. [b]) (nmbasis evals nb thr (modes ! 0)), [])))"

text \<open>
  \<open>nstates = len(sred)\<close> and \<open>s[istate][inms] = sred[istate]\<close>: the table of the states
  that the VSCF loop and the MP2 correction run over. \<open>s\<close> has a row of \<open>dof\<close> zeros for
  each state, and the entries of the modes of \<open>inms\<close> are set from the tuple.
\<close>

definition state_table :: "nat list \<Rightarrow> nat list list \<Rightarrow> nat \<Rightarrow> nat \<Rightarrow> nat" where
  "state_table modes sred istate knm =
     fold (\<lambda>j row. row(modes ! j := sred ! istate ! j)) [0..<length modes] (\<lambda>k. 0) knm"

text \<open>
  What the solver does with the manifold, with \<open>mptwo\<close> set: \<open>nstates = len(sred)\<close> and the
  table \<open>s\<close>; the VSCF loop, whose free energy \<open>acoupled\<close> is a sum over the \<open>nstates\<close>
  states of the table; then the MP2 correction, one second-order shift for each of the
  \<open>nstates\<close> states, from the eigenvalues and eigenvectors that the loop left. The state
  that the loop carries holds \<open>evalsvscf\<close>, \<open>evecsvscf\<close> and \<open>vmft\<close> (the fields \<open>vs_evals\<close>,
  \<open>vs_evecs\<close> and \<open>vs_vmft\<close>); its body is a
  parameter that is given the table and the number of states. The result is the
  correction and the lines that the enumeration printed.
\<close>

record vscf_state =
  vs_evals :: "nat \<Rightarrow> vec"
  vs_evecs :: "nat \<Rightarrow> nat \<Rightarrow> vec"
  vs_vmft :: mat

definition mp2_over_manifold ::
  "((nat \<Rightarrow> nat \<Rightarrow> nat) \<Rightarrow> nat \<Rightarrow> nat \<Rightarrow> vscf_state \<Rightarrow> real \<times> vscf_state) \<Rightarrow> real \<Rightarrow> real
     \<Rightarrow> vscf_state \<Rightarrow> (nat \<Rightarrow> mat) \<Rightarrow> (nat \<Rightarrow> vec) \<Rightarrow> (nat \<times> nat \<Rightarrow> mat) \<Rightarrow> nat
     \<Rightarrow> nat list \<Rightarrow> nat \<Rightarrow> real \<Rightarrow> error + vec \<times> string list" where
  "mp2_over_manifold body athresh aindep st0 psigrid evals vij n modes nb thr =
     (case manifold evals modes nb thr of
        Inl e \<Rightarrow> Inl e
      | Inr (sred, printed) \<Rightarrow>
          (let ss = state_table modes sred;
               nstates = length sred;
               r = vscf_loop (body ss nstates) athresh 0 aindep st0
           in case devaltotcoupledmp2 psigrid (vs_evals (final r)) (vs_evecs (final r)) ss
                     vij n modes nstates of
                Inl e \<Rightarrow> Inl e
              | Inr corr \<Rightarrow> Inr (corr, printed)))"

text \<open>
  Eigenvalues for a run of the enumeration: 32 levels with the spacing \<open>1/32\<close> for each
  mode, all within \<open>nkbt * temp = 4\<close> of the lowest.
\<close>

definition ladder :: "nat \<Rightarrow> vec" where
  "ladder inm = map (\<lambda>k. real k / 32) [0..<32]"

text \<open>
  For the statements about apply_asr: a matrix of \<open>r\<close> rows and \<open>c\<close> columns; the rows of
  \<open>D\<close> are orthonormal vectors of \<open>n\<close> components; and \<open>v\<close> is a vector that the matrix \<open>A\<close>
  maps to zero (an eigenvector of the eigenvalue 0 when it is not zero itself).
\<close>

definition is_mat :: "nat \<Rightarrow> nat \<Rightarrow> mat \<Rightarrow> bool" where
  "is_mat r c A = (length A = r \<and> (\<forall>row \<in> set A. length row = c))"

definition orthonormal_rows :: "nat \<Rightarrow> mat \<Rightarrow> bool" where
  "orthonormal_rows n D =
     (\<forall>k<length D. \<forall>l<length D. (\<Sum>j<n. D ! k ! j * D ! l ! j) = (if k = l then 1 else 0))"

definition annihilates :: "mat \<Rightarrow> vec \<Rightarrow> bool" where
  "annihilates A v = (mat_vec A v = replicate (length A) 0)"

text \<open>
  A system for apply_asr: four atoms of mass 1 at the corners of a rectangle of sides 3
  and 4 in the plane \<open>z = 0\<close>, centred at the origin. Its tensor of inertia is diagonal
  (16, 9, 25), so the eigenvectors that \<open>np.linalg.eig\<close> returns for it are the unit
  vectors, which \<open>unit_axes\<close> gives.
\<close>

definition rectangle :: mover where
  "rectangle = (default_mover 4 [3/2, 2, 0, - (3/2), 2, 0, 3/2, - 2, 0, - (3/2), - 2, 0]
                  [1, 1, 1, 1] [1, 1, 1, 1, 1, 1, 1, 1, 1, 1, 1, 1] 1)"

definition unit_axes :: "mat \<Rightarrow> mat" where
  "unit_axes A = eye 3"

subsection \<open>VSCFMapper.step\<close>

text \<open>
  The sampling range of one mode. The loop appends the potential of each displacement
  until \<open>nevib * nmevib < abs(dv)\<close>, then the potentials of the two displacements beyond
  (\<open>self.imm.dbeads.q -= dev\<close> twice, or \<open>+=\<close>), and ends. It is run from \<open>counter = -1\<close>
  downwards on \<open>[v0]\<close>, the list is reversed, and it is run from \<open>counter = 1\<close> upwards.
\<close>

definition vindeps_file :: "nat \<Rightarrow> string" where
  "vindeps_file inm = ''vindeps.'' @ str_nat inm @ ''.dat''"

definition vcoupledmap_file :: "nat \<Rightarrow> nat \<Rightarrow> string" where
  "vcoupledmap_file inm jnm = ''vcoupledmap.'' @ str_nat inm @ ''.'' @ str_nat jnm @ ''.dat''"

partial_function (option) range_loop ::
  "engine \<Rightarrow> imf \<Rightarrow> nat \<Rightarrow> real \<Rightarrow> real \<Rightarrow> int \<Rightarrow> int \<Rightarrow> vec \<Rightarrow> (vec \<times> int) option" where
  "range_loop eng st inm nmd v0 delta counter vi =
     (if self_nevib st * imm_nmevib (imm st) ! inm < \<bar>pc_dv eng st inm nmd v0 counter\<bar> then
        Some (vi @ [v0 + pc_dv eng st inm nmd v0 counter,
                    pots eng (displaced st inm nmd (counter + delta)) / self_nprim st,
                    pots eng (displaced st inm nmd (counter + 2 * delta)) / self_nprim st],
              counter)
      else range_loop eng st inm nmd v0 delta (counter + delta)
             (vi @ [v0 + pc_dv eng st inm nmd v0 counter]))"

definition map_range :: "engine \<Rightarrow> imf \<Rightarrow> nat \<Rightarrow> real \<Rightarrow> (nat \<times> nat \<times> vec) option" where
  \<comment> \<open>\<open>(nptsmin[inm], nptsmax[inm], vi)\<close>\<close>
  "map_range eng st inm v0 =
     (case range_loop eng st inm (self_fnmrms st * imm_nmrms (imm st) ! inm) v0 (- 1) (- 1) [v0] of
        None \<Rightarrow> None
      | Some (vi1, c1) \<Rightarrow>
          (case range_loop eng st inm (self_fnmrms st * imm_nmrms (imm st) ! inm) v0 1 1
                  (rev vi1) of
             None \<Rightarrow> None
           | Some (vi2, c2) \<Rightarrow> Some (nat (- c1), nat c2, vi2)))"

record ranges =
  mp_nptsmin :: "nat list"
  mp_nptsmax :: "nat list"
  mp_npts :: "nat list"
  mp_vis :: mat
  mp_files :: files

text \<open>
  The ranges of all modes of \<open>inms\<close> when no \<open>nptsmax.dat\<close> exists: each mode is sampled,
  its slice is appended to \<open>vis\<close> and saved as \<open>vindeps.<inm>.dat\<close>; at the end the two
  files of the bounds are saved.
\<close>

fun sample_ranges :: "engine \<Rightarrow> imf \<Rightarrow> real \<Rightarrow> nat list \<Rightarrow> ranges \<Rightarrow> ranges option" where
  "sample_ranges eng st v0 [] r = Some r"
| "sample_ranges eng st v0 (inm # rest) r =
     (case map_range eng st inm v0 of
        None \<Rightarrow> None
      | Some (lo, hi, vi) \<Rightarrow>
          sample_ranges eng st v0 rest
            (r\<lparr>mp_nptsmin := (mp_nptsmin r)[inm := lo],
               mp_nptsmax := (mp_nptsmax r)[inm := hi],
               mp_npts := (mp_npts r)[inm := lo + hi + 1],
               mp_vis := mp_vis r @ [vi],
               mp_files := (mp_files r)(vindeps_file inm \<mapsto> map (\<lambda>x. [x]) vi)\<rparr>))"

text \<open>The slices read back when \<open>nptsmax.dat\<close> exists; a missing file raises IOError.\<close>

fun load_vis :: "files \<Rightarrow> nat list \<Rightarrow> error + mat" where
  "load_vis fs [] = Inr []"
| "load_vis fs (inm # rest) =
     (case fs (vindeps_file inm) of
        None \<Rightarrow> Inl (IOError (vindeps_file inm @ '' not found.''))
      | Some t \<Rightarrow>
          (case load_vis fs rest of Inl e \<Rightarrow> Inl e | Inr vs \<Rightarrow> Inr (column 0 t # vs)))"

definition cached_ranges :: "files \<Rightarrow> nat \<Rightarrow> nat list \<Rightarrow> error + ranges" where
  "cached_ranges fs dof modes =
     (case fs ''nptsmin.dat'' of
        None \<Rightarrow> Inl (IOError ''nptsmin.dat not found.'')
      | Some tmin \<Rightarrow>
          (case fs ''nptsmax.dat'' of
             None \<Rightarrow> Inl (IOError ''nptsmax.dat not found.'')
           | Some tmax \<Rightarrow>
               (case load_vis fs modes of
                  Inl e \<Rightarrow> Inl e
                | Inr vs \<Rightarrow>
                    Inr \<lparr>mp_nptsmin = as_ints tmin, mp_nptsmax = as_ints tmax,
                         mp_npts = fold (\<lambda>inm np. np[inm := as_ints tmin ! inm + as_ints tmax ! inm + 1])
                                     modes (replicate dof 0),
                         mp_vis = vs, mp_files = fs\<rparr>)))"

text \<open>
  The grid of one pair. \<open>nm_at lo d i\<close> is \<open>(-nptsmin + i - 2.0) * dnm\<close>, the displacement
  of the grid index \<open>i\<close>. \<open>pair_entry\<close> is the value stored in \<open>vtots[k]\<close> for the indices
  \<open>i\<close> and \<open>j\<close>: the stored slice of the other mode when the index of a mode is on the
  axis (\<open>-nptsmin + i - 2 == 0\<close>), the potential of the doubly displaced configuration
  otherwise. \<open>rinm\<close> and \<open>rjnm\<close> are the positions of the two modes in \<open>inms\<close>.
\<close>

definition nm_at :: "nat \<Rightarrow> real \<Rightarrow> nat \<Rightarrow> real" where
  "nm_at lo dnm i = (- real lo + real i - 2) * dnm"

definition displaced2 :: "imf \<Rightarrow> nat \<Rightarrow> nat \<Rightarrow> real \<Rightarrow> real \<Rightarrow> vec" where
  \<comment> \<open>\<open>q + V.T[inm] * nmi * sqrt(nprim) + V.T[jnm] * nmj * sqrt(nprim)\<close>\<close>
  "displaced2 st inm jnm nmi nmj =
     map (\<lambda>k. imm_q (imm st) ! k + mode_vector st inm ! k * nmi * sqrt (self_nprim st)
                 + mode_vector st jnm ! k * nmj * sqrt (self_nprim st))
       [0..<length (imm_q (imm st))]"

definition pair_entry ::
  "engine \<Rightarrow> imf \<Rightarrow> ranges \<Rightarrow> nat \<Rightarrow> nat \<Rightarrow> nat \<Rightarrow> nat \<Rightarrow> nat \<Rightarrow> nat \<Rightarrow> real" where
  "pair_entry eng st r inm jnm rinm rjnm i j =
     (if - int (mp_nptsmin r ! inm) + int i - 2 = 0 then mp_vis r ! rjnm ! j
      else if - int (mp_nptsmin r ! jnm) + int j - 2 = 0 then mp_vis r ! rinm ! i
      else pots eng (displaced2 st inm jnm
                       (nm_at (mp_nptsmin r ! inm) (self_fnmrms st * imm_nmrms (imm st) ! inm) i)
                       (nm_at (mp_nptsmin r ! jnm) (self_fnmrms st * imm_nmrms (imm st) ! jnm) j))
             / self_nprim st)"

definition pair_vtots ::
  "engine \<Rightarrow> imf \<Rightarrow> ranges \<Rightarrow> nat \<Rightarrow> nat \<Rightarrow> nat \<Rightarrow> nat \<Rightarrow> vec" where
  \<comment> \<open>\<open>vtots = np.zeros((npts[inm]+4)*(npts[jnm]+4))\<close>, then \<open>vtots[k] = ...\<close> with
      \<open>k = i * (npts[jnm]+4) + j\<close> in the two nested loops\<close>
  "pair_vtots eng st r inm jnm rinm rjnm =
     fold (\<lambda>i vt. fold (\<lambda>j vt'. vt'[i * (mp_npts r ! jnm + 4) + j :=
                                    pair_entry eng st r inm jnm rinm rjnm i j])
                     [0..<mp_npts r ! jnm + 4] vt)
       [0..<mp_npts r ! inm + 4]
       (replicate ((mp_npts r ! inm + 4) * (mp_npts r ! jnm + 4)) 0)"

definition linspace :: "real \<Rightarrow> real \<Rightarrow> nat \<Rightarrow> vec" where
  \<comment> \<open>\<open>np.linspace(a, b, n)\<close>\<close>
  "linspace a b n = map (\<lambda>k. a + (b - a) * real k / real (n - 1)) [0..<n]"

definition mode_grid :: "imf \<Rightarrow> ranges \<Rightarrow> nat \<Rightarrow> vec" where
  \<comment> \<open>\<open>np.linspace(-nptsmin[inm]*dnmi, nptsmax[inm]*dnmi, self.nint)\<close>\<close>
  "mode_grid st r inm =
     linspace (- real (mp_nptsmin r ! inm) * (self_fnmrms st * imm_nmrms (imm st) ! inm))
              (real (mp_nptsmax r ! inm) * (self_fnmrms st * imm_nmrms (imm st) ! inm))
              (self_nint st)"

definition coupling_grid :: "(real \<Rightarrow> real \<Rightarrow> real) \<Rightarrow> vec \<Rightarrow> vec \<Rightarrow> mat" where
  \<comment> \<open>\<open>vijgrid\<close>: the row of \<open>ijnm\<close> holds the corrections for all \<open>iinm\<close>\<close>
  "coupling_grid vtspl ig jg =
     map (\<lambda>ijnm. map (\<lambda>iinm. vtspl (ig ! iinm) (jg ! ijnm) - vtspl (ig ! iinm) 0
                               - vtspl 0 (jg ! ijnm) + vtspl 0 0)
                    [0..<length ig])
       [0..<length jg]"

definition vindep_table :: "real \<Rightarrow> (real \<Rightarrow> real) \<Rightarrow> real \<Rightarrow> vec \<Rightarrow> mat" where
  \<comment> \<open>the two columns of \<open>vindep.<inm>.dat\<close>: the grid and the slice of the interpolant
      without its harmonic part and its value at the origin\<close>
  "vindep_table w2 slice origin g = map (\<lambda>x. [x, slice x - 0.5 * w2 * x\<^sup>2 - origin]) g"

definition save_if_absent :: "files \<Rightarrow> string \<Rightarrow> mat \<Rightarrow> files" where
  \<comment> \<open>\<open>if os.path.exists(potfile)==False: np.savetxt(potfile, table)\<close>\<close>
  "save_if_absent fs name t = (if fs name = None then fs(name \<mapsto> t) else fs)"

text \<open>
  The body of the two nested loops over \<open>inms\<close> in the two-body branch. \<open>interp2d\<close> stands
  for \<open>scipy.interpolate.interp2d(nmis, nmjs, vtots, kind='cubic', bounds_error=False)\<close>.
\<close>

definition map_pair ::
  "engine \<Rightarrow> (vec \<Rightarrow> vec \<Rightarrow> vec \<Rightarrow> real \<Rightarrow> real \<Rightarrow> real) \<Rightarrow> imf \<Rightarrow> bool \<Rightarrow> real \<Rightarrow> ranges
     \<Rightarrow> nat list \<Rightarrow> nat \<Rightarrow> nat \<Rightarrow> files \<Rightarrow> files" where
  "map_pair eng interp2d st print_2b_map v0 r modes rinm rjnm fs =
     (let inm = modes ! rinm;
          jnm = modes ! rjnm
      in if jnm > inm \<and> fs (vcoupled_file inm jnm) = None then
           (let vtots = pair_vtots eng st r inm jnm rinm rjnm;
                nmis = map (nm_at (mp_nptsmin r ! inm) (self_fnmrms st * imm_nmrms (imm st) ! inm))
                         [0..<mp_npts r ! inm + 4];
                nmjs = map (nm_at (mp_nptsmin r ! jnm) (self_fnmrms st * imm_nmrms (imm st) ! jnm))
                         [0..<mp_npts r ! jnm + 4];
                fs1 = (if print_2b_map then
                         fs(vcoupledmap_file inm jnm \<mapsto>
                              concat (map (\<lambda>i. map (\<lambda>j. [nmis ! i, nmjs ! j,
                                     vtots ! (i * length nmjs + j) - v0]) [0..<length nmjs])
                                [0..<length nmis]))
                       else fs);
                vtspl = interp2d nmis nmjs vtots;
                ig = mode_grid st r inm;
                jg = mode_grid st r jnm;
                fs2 = save_if_absent fs1 (vindep_file inm)
                        (vindep_table (imm_w2 (imm st) ! inm) (\<lambda>x. vtspl x 0) (vtspl 0 0) ig);
                fs3 = save_if_absent fs2 (vindep_file jnm)
                        (vindep_table (imm_w2 (imm st) ! jnm) (\<lambda>y. vtspl 0 y) (vtspl 0 0) jg)
            in fs3(vcoupled_file inm jnm \<mapsto> coupling_grid vtspl ig jg))
         else fs)"

definition map_pairs ::
  "engine \<Rightarrow> (vec \<Rightarrow> vec \<Rightarrow> vec \<Rightarrow> real \<Rightarrow> real \<Rightarrow> real) \<Rightarrow> imf \<Rightarrow> bool \<Rightarrow> real \<Rightarrow> ranges
     \<Rightarrow> nat list \<Rightarrow> files \<Rightarrow> files" where
  \<comment> \<open>\<open>for inm in inms: for jnm in inms: ...\<close>, \<open>rinm\<close> and \<open>rjnm\<close> counting the rounds\<close>
  "map_pairs eng interp2d st print_2b_map v0 r modes fs =
     fold (\<lambda>rinm fs'. fold (map_pair eng interp2d st print_2b_map v0 r modes rinm)
                        [0..<length modes] fs')
       [0..<length modes] fs"

text \<open>
  The three-body branch: for each triple \<open>inm < jnm < knm\<close> of \<open>inms\<close> without a file
  \<open>vtriplet.<inm>.<jnm>.<knm>.dat\<close>, the potential is evaluated on the whole grid of the
  three modes, interpolated (\<open>interp3\<close> stands for \<open>RegularGridInterpolator\<close>), and the
  files of the three modes, of the three pairs and of the triple are written.
\<close>

definition displaced3 :: "imf \<Rightarrow> nat \<Rightarrow> nat \<Rightarrow> nat \<Rightarrow> real \<Rightarrow> real \<Rightarrow> real \<Rightarrow> vec" where
  "displaced3 st inm jnm knm nmi nmj nmk =
     map (\<lambda>k. imm_q (imm st) ! k + mode_vector st inm ! k * nmi * sqrt (self_nprim st)
                 + mode_vector st jnm ! k * nmj * sqrt (self_nprim st)
                 + mode_vector st knm ! k * nmk * sqrt (self_nprim st))
       [0..<length (imm_q (imm st))]"

definition triplet_table :: "(real \<Rightarrow> real \<Rightarrow> real \<Rightarrow> real) \<Rightarrow> vec \<Rightarrow> vec \<Rightarrow> vec \<Rightarrow> mat" where
  "triplet_table vtspl ig jg kg =
     concat (map (\<lambda>iknm. concat (map (\<lambda>ijnm. map (\<lambda>iinm.
         [ig ! iinm, jg ! ijnm, kg ! iknm,
          vtspl (ig ! iinm) (jg ! ijnm) (kg ! iknm)
            - (vtspl (ig ! iinm) (jg ! ijnm) 0 + vtspl (ig ! iinm) 0 (kg ! iknm)
                 + vtspl 0 (jg ! ijnm) (kg ! iknm))
            + (vtspl (ig ! iinm) 0 0 + vtspl 0 (jg ! ijnm) 0 + vtspl 0 0 (kg ! iknm))
            - vtspl 0 0 0])
       [0..<length ig]) [0..<length jg])) [0..<length kg])"

definition map_triple ::
  "engine \<Rightarrow> (vec \<Rightarrow> vec \<Rightarrow> vec \<Rightarrow> real list list list \<Rightarrow> real \<Rightarrow> real \<Rightarrow> real \<Rightarrow> real) \<Rightarrow> imf \<Rightarrow> ranges
     \<Rightarrow> nat \<Rightarrow> nat \<Rightarrow> nat \<Rightarrow> files \<Rightarrow> files" where
  "map_triple eng interp3 st r inm jnm knm fs =
     (if jnm > inm \<and> knm > jnm \<and> fs (vtriplet_file inm jnm knm) = None then
        (let nmis = map (nm_at (mp_nptsmin r ! inm) (self_fnmrms st * imm_nmrms (imm st) ! inm))
                      [0..<mp_npts r ! inm + 4];
             nmjs = map (nm_at (mp_nptsmin r ! jnm) (self_fnmrms st * imm_nmrms (imm st) ! jnm))
                      [0..<mp_npts r ! jnm + 4];
             nmks = map (nm_at (mp_nptsmin r ! knm) (self_fnmrms st * imm_nmrms (imm st) ! knm))
                      [0..<mp_npts r ! knm + 4];
             vtots = map (\<lambda>nmi. map (\<lambda>nmj. map (\<lambda>nmk.
                        pots eng (displaced3 st inm jnm knm nmi nmj nmk) / self_nprim st)
                      nmks) nmjs) nmis;
             vtspl = interp3 nmis nmjs nmks vtots;
             ig = mode_grid st r inm;
             jg = mode_grid st r jnm;
             kg = mode_grid st r knm;
             fs1 = fs(vindep_file inm \<mapsto>
                     vindep_table (imm_w2 (imm st) ! inm) (\<lambda>x. vtspl x 0 0) (vtspl 0 0 0) ig);
             fs2 = fs1(vindep_file jnm \<mapsto>
                     vindep_table (imm_w2 (imm st) ! jnm) (\<lambda>y. vtspl 0 y 0) (vtspl 0 0 0) jg);
             fs3 = fs2(vindep_file knm \<mapsto>
                     vindep_table (imm_w2 (imm st) ! knm) (\<lambda>z. vtspl 0 0 z) (vtspl 0 0 0) kg);
             fs4 = fs3(vcoupled_file inm jnm \<mapsto> coupling_grid (\<lambda>x y. vtspl x y 0) ig jg);
             fs5 = fs4(vcoupled_file inm knm \<mapsto> coupling_grid (\<lambda>x z. vtspl x 0 z) ig kg);
             fs6 = fs5(vcoupled_file jnm knm \<mapsto> coupling_grid (\<lambda>y z. vtspl 0 y z) jg kg)
         in fs6(vtriplet_file inm jnm knm \<mapsto> triplet_table vtspl ig jg kg))
      else fs)"

definition map_triples ::
  "engine \<Rightarrow> (vec \<Rightarrow> vec \<Rightarrow> vec \<Rightarrow> real list list list \<Rightarrow> real \<Rightarrow> real \<Rightarrow> real \<Rightarrow> real) \<Rightarrow> imf \<Rightarrow> ranges
     \<Rightarrow> nat list \<Rightarrow> files \<Rightarrow> files" where
  "map_triples eng interp3 st r modes fs =
     fold (\<lambda>inm fs1. fold (\<lambda>jnm fs2. fold (map_triple eng interp3 st r inm jnm) modes fs2)
                        modes fs1)
       modes fs"

text \<open>
  The first half of the step: the offset and the list of the modes with
  \<open>abs(w2) > 1e-10\<close> are saved, then the ranges are read back when \<open>nptsmax.dat\<close> exists
  and sampled otherwise. The result is None when a sampling loop runs for ever.
\<close>

definition mapper_modes :: "imf \<Rightarrow> nat list" where
  "mapper_modes st = filter (\<lambda>inm. \<bar>imm_w2 (imm st) ! inm\<bar> > 1 / 10 ^ 10) [0..<self_dof st]"

definition mapper_ranges :: "engine \<Rightarrow> imf \<Rightarrow> files \<Rightarrow> (error + ranges) option" where
  "mapper_ranges eng st fs =
     (let v0 = equilibrium_v0 eng st;
          fs1 = fs(''potoffset.dat'' \<mapsto> [[v0]]);
          fs2 = fs1(''modes.dat'' \<mapsto> map (\<lambda>inm. [real inm]) (mapper_modes st))
      in if fs2 ''nptsmax.dat'' \<noteq> None then
           Some (cached_ranges fs2 (self_dof st) (mapper_modes st))
         else
           (case sample_ranges eng st v0 (mapper_modes st)
                   \<lparr>mp_nptsmin = replicate (self_dof st) 0,
                    mp_nptsmax = replicate (self_dof st) 0,
                    mp_npts = replicate (self_dof st) 0, mp_vis = [], mp_files = fs2\<rparr> of
              None \<Rightarrow> None
            | Some r \<Rightarrow>
                Some (Inr (r\<lparr>mp_files :=
                   (mp_files r)(''nptsmin.dat'' \<mapsto> map (\<lambda>n. [real n]) (mp_nptsmin r),
                                ''nptsmax.dat'' \<mapsto> map (\<lambda>n. [real n]) (mp_nptsmax r))\<rparr>))))"

text \<open>
  VSCFMapper.step: a call with \<open>step > 0\<close> ends the run; otherwise the ranges, then the
  two-body branch when \<open>threebody\<close> is False and the three-body branch when it is True.
\<close>

definition VSCFMapper_step ::
  "engine \<Rightarrow> (vec \<Rightarrow> vec \<Rightarrow> vec \<Rightarrow> real \<Rightarrow> real \<Rightarrow> real)
     \<Rightarrow> (vec \<Rightarrow> vec \<Rightarrow> vec \<Rightarrow> real list list list \<Rightarrow> real \<Rightarrow> real \<Rightarrow> real \<Rightarrow> real)
     \<Rightarrow> imf \<Rightarrow> bool \<Rightarrow> bool \<Rightarrow> files \<Rightarrow> nat \<Rightarrow> (error + files) option" where
  "VSCFMapper_step eng interp2d interp3 st print_2b_map threebody fs step =
     (if step > 0 then
        Some (Inl (softexit_trigger ''VSCF has finished in first (previous) step. Exiting.''))
      else
        (case mapper_ranges eng st fs of
           None \<Rightarrow> None
         | Some (Inl e) \<Rightarrow> Some (Inl e)
         | Some (Inr r) \<Rightarrow>
             if threebody = False then
               Some (Inr (map_pairs eng interp2d st print_2b_map (equilibrium_v0 eng st) r
                            (mapper_modes st) (mp_files r)))
             else
               Some (Inr (map_triples eng interp3 st r (mapper_modes st) (mp_files r)))))"

section \<open>Verified properties\<close>

subsection \<open>The VSCF loop returns\<close>

lemma vscf_loop_ok:
  "iiter \<le> 200 \<Longrightarrow> vscf_result_ok athresh iiter (vscf_loop body athresh iiter aold st)"
proof (induction body athresh iiter aold st rule: vscf_loop.induct)
  case (1 body athresh iiter aold st)
  let ?a = "fst (body (iiter + 1) st)" and ?s = "snd (body (iiter + 1) st)"
  show ?case
  proof (cases "iiter + 1 > 5")
    case big: True
    show ?thesis
    proof (cases "converged ?a aold athresh")
      case True
      with big "1.prems" show ?thesis
        by (subst vscf_loop.simps) (simp add: vscf_result_ok_def)
    next
      case nc: False
      show ?thesis
      proof (cases "iiter + 1 > 200")
        case True
        with nc big "1.prems" show ?thesis
          by (subst vscf_loop.simps) (simp add: vscf_result_ok_def)
      next
        case False
        with nc big "1.IH"(1)
        have "vscf_result_ok athresh (iiter + 1) (vscf_loop body athresh (iiter + 1) ?a ?s)"
          by simp
        with nc False big show ?thesis
          by (subst vscf_loop.simps) (simp add: vscf_result_ok_def)
      qed
    qed
  next
    case False
    with "1.IH"(2)
    have "vscf_result_ok athresh (iiter + 1) (vscf_loop body athresh (iiter + 1) ?a ?s)"
      by simp
    with False show ?thesis
      by (subst vscf_loop.simps) (simp add: vscf_result_ok_def)
  qed
qed

subsection \<open>Claims about the VSCF loop\<close>

text \<open>
  C5, as the spec states it: the loop started by \<open>iiter = 0\<close> runs at least six iterations
  and, when the threshold is never met, stops after 200 iterations with the warning. The
  cap is tested by \<open>iiter > 200\<close> after the increment, so a run that never converges makes
  201 iterations: here the free energy alternates between 1 and 2 and never comes within
  one percent of its previous value.
\<close>

theorem C5_cap_200_counterexample:
  "iters (vscf_loop (\<lambda>k s. (if s then 1 else 2, \<not> s)) (1/100) 0 1 True) \<noteq> 200 \<and>
   iters (vscf_loop (\<lambda>k s. (if s then 1 else 2, \<not> s)) (1/100) 0 1 True) = 201 \<and>
   warned (vscf_loop (\<lambda>k s. (if s then 1 else 2, \<not> s)) (1/100) 0 1 True)"
  by (simp add: vscf_loop.simps converged_def)

text \<open>
  C5, amended: the loop of VSCFSolver.step always returns (the function is total, by its
  termination proof); started by \<open>iiter = 0\<close> it makes at least 6 and at most 201
  iterations, whatever one iteration computes; it prints the warning exactly when its last
  iteration did not meet the threshold, and then it has made 201 iterations.
\<close>

theorem C5_vscf_loop_terminates:
  "6 \<le> iters (vscf_loop body athresh 0 aold st) \<and>
   iters (vscf_loop body athresh 0 aold st) \<le> 201 \<and>
   warned (vscf_loop body athresh 0 aold st) =
     (\<not> converged (acoupled (vscf_loop body athresh 0 aold st))
          (aprev (vscf_loop body athresh 0 aold st)) athresh) \<and>
   (warned (vscf_loop body athresh 0 aold st) \<longrightarrow>
      iters (vscf_loop body athresh 0 aold st) = 201)"
  using vscf_loop_ok [of 0 athresh body aold st]
  by (simp add: vscf_result_ok_def)

text \<open>
  A run whose free energy is constant meets the threshold at every iteration; the test
  is first applied at iteration 6, and the run stops there without a warning.
\<close>

theorem C5_vscf_loop_terminates_witness:
  "iters (vscf_loop (\<lambda>k s. (1, s)) (1/100) 0 1 ()) = 6 \<and>
   \<not> warned (vscf_loop (\<lambda>k s. (1, s)) (1/100) 0 1 ()) \<and>
   converged (acoupled (vscf_loop (\<lambda>k s. (1, s)) (1/100) 0 1 ()))
     (aprev (vscf_loop (\<lambda>k s. (1, s)) (1/100) 0 1 ())) (1/100)"
  using C5_vscf_loop_terminates [of "\<lambda>k s. (1, s)" "1/100" 1 "()"]
  by (simp add: vscf_loop.simps converged_def)

subsection \<open>Matrices as lists of rows\<close>

lemma is_mat_nth: "is_mat r c A \<Longrightarrow> i < r \<Longrightarrow> length (A ! i) = c"
  by (simp add: is_mat_def)

lemma is_mat_ncols: "is_mat r c A \<Longrightarrow> 0 < r \<Longrightarrow> ncols A = c"
  by (cases A) (auto simp add: is_mat_def ncols_def)

lemma is_mat_eye: "is_mat n n (eye n)"
  by (auto simp add: is_mat_def eye_def)

lemma eye_nth: "i < n \<Longrightarrow> j < n \<Longrightarrow> eye n ! i ! j = (if i = j then 1 else 0)"
  by (simp add: eye_def)

lemma is_mat_transpose: "is_mat r c A \<Longrightarrow> 0 < r \<Longrightarrow> is_mat c r (transpose_m A)"
  by (auto simp add: is_mat_ncols transpose_m_def) (auto simp add: is_mat_def)

lemma transpose_nth:
  "is_mat r c A \<Longrightarrow> 0 < r \<Longrightarrow> i < r \<Longrightarrow> j < c \<Longrightarrow> transpose_m A ! j ! i = A ! i ! j"
  by (simp add: transpose_m_def is_mat_ncols) (simp add: is_mat_def)

lemma is_mat_matmul:
  "is_mat r k A \<Longrightarrow> is_mat k c B \<Longrightarrow> 0 < k \<Longrightarrow> is_mat r c (matmul A B)"
  by (auto simp add: matmul_def is_mat_ncols) (auto simp add: is_mat_def)

lemma matmul_nth:
  "is_mat r k A \<Longrightarrow> is_mat k c B \<Longrightarrow> 0 < k \<Longrightarrow> i < r \<Longrightarrow> j < c \<Longrightarrow>
   matmul A B ! i ! j = (\<Sum>a<k. A ! i ! a * B ! a ! j)"
  by (simp add: matmul_def is_mat_ncols) (simp add: is_mat_def)

lemma is_mat_sub: "is_mat r c A \<Longrightarrow> 0 < r \<Longrightarrow> is_mat r c (mat_sub A B)"
  by (auto simp add: mat_sub_def is_mat_ncols) (auto simp add: is_mat_def)

lemma mat_sub_nth:
  "is_mat r c A \<Longrightarrow> 0 < r \<Longrightarrow> i < r \<Longrightarrow> j < c \<Longrightarrow>
   mat_sub A B ! i ! j = A ! i ! j - B ! i ! j"
  by (simp add: mat_sub_def is_mat_ncols) (simp add: is_mat_def)

lemma is_mat_transfmatrix:
  assumes "is_mat K n D" "0 < K" "0 < n"
  shows "is_mat n n (transfmatrix n D)"
  unfolding transfmatrix_def using is_mat_eye assms(3) by (rule is_mat_sub)

lemma transfmatrix_nth:
  assumes "is_mat K n D" "0 < K" "0 < n" "i < n" "j < n"
  shows "transfmatrix n D ! i ! j = (if i = j then 1 else 0) - (\<Sum>k<K. D ! k ! i * D ! k ! j)"
proof -
  have t: "is_mat n K (transpose_m D)" using assms(1,2) by (rule is_mat_transpose)
  have "matmul (transpose_m D) D ! i ! j = (\<Sum>k<K. transpose_m D ! i ! k * D ! k ! j)"
    using t assms(1,2,4,5) by (rule matmul_nth)
  also have "\<dots> = (\<Sum>k<K. D ! k ! i * D ! k ! j)"
    using assms by (intro sum.cong refl) (simp add: transpose_nth)
  finally show ?thesis
    unfolding transfmatrix_def
    using assms by (simp add: mat_sub_nth [OF is_mat_eye] eye_nth)
qed

lemma transfmatrix_row_kills:
  assumes D: "is_mat K n D" "0 < K" "0 < n" and o: "orthonormal_rows n D" and l: "l < K" and i: "i < n"
  shows "(\<Sum>j<n. transfmatrix n D ! i ! j * D ! l ! j) = 0"
proof -
  have K: "length D = K" using D(1) by (simp add: is_mat_def)
  have "(\<Sum>j<n. transfmatrix n D ! i ! j * D ! l ! j) =
        (\<Sum>j<n. ((if i = j then 1 else 0) - (\<Sum>k<K. D ! k ! i * D ! k ! j)) * D ! l ! j)"
    using D i by (intro sum.cong refl) (simp add: transfmatrix_nth)
  also have "\<dots> = (\<Sum>j<n. (if i = j then 1 else 0) * D ! l ! j)
                   - (\<Sum>j<n. (\<Sum>k<K. D ! k ! i * D ! k ! j) * D ! l ! j)"
    by (simp add: left_diff_distrib sum_subtractf)
  also have "(\<Sum>j<n. (if i = j then 1 else 0) * D ! l ! j) = D ! l ! i"
    using i by (simp add: if_distrib [of "\<lambda>x. x * _"] sum.delta' cong: if_cong)
  also have "(\<Sum>j<n. (\<Sum>k<K. D ! k ! i * D ! k ! j) * D ! l ! j) =
             (\<Sum>k<K. D ! k ! i * (\<Sum>j<n. D ! k ! j * D ! l ! j))"
  proof -
    have "(\<Sum>j<n. (\<Sum>k<K. D ! k ! i * D ! k ! j) * D ! l ! j) =
          (\<Sum>j<n. \<Sum>k<K. D ! k ! i * (D ! k ! j * D ! l ! j))"
      by (simp add: sum_distrib_right mult.assoc)
    also have "\<dots> = (\<Sum>k<K. \<Sum>j<n. D ! k ! i * (D ! k ! j * D ! l ! j))"
      by (rule sum.swap)
    also have "\<dots> = (\<Sum>k<K. D ! k ! i * (\<Sum>j<n. D ! k ! j * D ! l ! j))"
      by (simp add: sum_distrib_left)
    finally show ?thesis .
  qed
  also have "\<dots> = (\<Sum>k<K. D ! k ! i * (if k = l then 1 else 0))"
    using o l K by (intro sum.cong refl) (simp add: orthonormal_rows_def)
  also have "\<dots> = D ! l ! i"
    using l by (simp add: if_distrib [of "\<lambda>x. _ * x"] sum.delta cong: if_cong)
  finally show ?thesis by simp
qed

lemma project_annihilates:
  assumes D: "is_mat K n D" "0 < K" "0 < n" and o: "orthonormal_rows n D" and l: "l < K"
    and dm: "is_mat n n dm"
  shows "annihilates (project n D dm) (D ! l)"
proof -
  let ?P = "transfmatrix n D"
  have P: "is_mat n n ?P" using D by (rule is_mat_transfmatrix)
  have Pt: "is_mat n n (transpose_m ?P)" using P D(3) by (rule is_mat_transpose)
  have X: "is_mat n n (matmul dm ?P)" using dm P D(3) by (rule is_mat_matmul)
  have R: "is_mat n n (project n D dm)"
    unfolding project_def using Pt X D(3) by (rule is_mat_matmul)
  have len: "length (project n D dm) = n" using R by (simp add: is_mat_def)
  have lD: "length (D ! l) = n" using D(1) l by (rule is_mat_nth)
  have z: "(\<Sum>j<n. project n D dm ! i ! j * D ! l ! j) = 0" if i: "i < n" for i
  proof -
    have "(\<Sum>j<n. project n D dm ! i ! j * D ! l ! j) =
          (\<Sum>j<n. (\<Sum>a<n. ?P ! a ! i * (\<Sum>b<n. dm ! a ! b * ?P ! b ! j)) * D ! l ! j)"
    proof (intro sum.cong refl)
      fix j assume "j \<in> {..<n}"
      then have j: "j < n" by simp
      have "project n D dm ! i ! j = (\<Sum>a<n. transpose_m ?P ! i ! a * matmul dm ?P ! a ! j)"
        unfolding project_def using Pt X D(3) i j by (rule matmul_nth)
      also have "\<dots> = (\<Sum>a<n. ?P ! a ! i * (\<Sum>b<n. dm ! a ! b * ?P ! b ! j))"
        using i j D(3) by (intro sum.cong refl)
          (simp add: transpose_nth [OF P] matmul_nth [OF dm P])
      finally show "project n D dm ! i ! j * D ! l ! j =
          (\<Sum>a<n. ?P ! a ! i * (\<Sum>b<n. dm ! a ! b * ?P ! b ! j)) * D ! l ! j"
        by simp
    qed
    also have "\<dots> = (\<Sum>a<n. ?P ! a ! i * (\<Sum>b<n. dm ! a ! b * (\<Sum>j<n. ?P ! b ! j * D ! l ! j)))"
    proof -
      have "(\<Sum>j<n. (\<Sum>a<n. ?P ! a ! i * (\<Sum>b<n. dm ! a ! b * ?P ! b ! j)) * D ! l ! j) =
            (\<Sum>j<n. \<Sum>a<n. ?P ! a ! i * (\<Sum>b<n. dm ! a ! b * (?P ! b ! j * D ! l ! j)))"
        by (simp add: sum_distrib_left sum_distrib_right mult.assoc)
      also have "\<dots> = (\<Sum>a<n. \<Sum>j<n. ?P ! a ! i * (\<Sum>b<n. dm ! a ! b * (?P ! b ! j * D ! l ! j)))"
        by (rule sum.swap)
      also have "\<dots> = (\<Sum>a<n. ?P ! a ! i * (\<Sum>j<n. \<Sum>b<n. dm ! a ! b * (?P ! b ! j * D ! l ! j)))"
        by (simp add: sum_distrib_left)
      also have "\<dots> = (\<Sum>a<n. ?P ! a ! i * (\<Sum>b<n. \<Sum>j<n. dm ! a ! b * (?P ! b ! j * D ! l ! j)))"
        by (subst sum.swap) simp
      also have "\<dots> = (\<Sum>a<n. ?P ! a ! i * (\<Sum>b<n. dm ! a ! b * (\<Sum>j<n. ?P ! b ! j * D ! l ! j)))"
        by (simp add: sum_distrib_left)
      finally show ?thesis .
    qed
    also have "\<dots> = 0"
      using transfmatrix_row_kills [OF D o l] by simp
    finally show ?thesis .
  qed
  show ?thesis
    unfolding annihilates_def
    by (rule nth_equalityI) (simp_all add: mat_vec_def len lD z)
qed







lemma mat_vec_zeros: "length v = n \<Longrightarrow> mat_vec (zeros2 n n) v = replicate n 0"
  by (rule nth_equalityI) (simp_all add: mat_vec_def zeros2_def)

subsection \<open>IMF.bind and the size of the dynamical matrix\<close>



lemma those_None: "those xs = None \<Longrightarrow> None \<in> set xs"
  by (induction xs) (auto split: option.splits)




















subsection \<open>The walk of IMF.step stops at the first sample above the threshold\<close>

lemma int_Suc_shift: "c + d + int j * d = c + int (Suc j) * d"
  by (simp add: algebra_simps)

lemma explore_walk:
  assumes "bailout st step nmd (imf_dv eng st step nmd v0 (counter + int k * delta))
             (counter + int k * delta)"
      and "\<forall>j<k. \<not> bailout st step nmd (imf_dv eng st step nmd v0 (counter + int j * delta))
             (counter + int j * delta)"
  shows "explore eng st step nmd v0 delta counter ls =
           Some (walk eng st step nmd v0 delta counter ls k, counter + int k * delta)"
  using assms
proof (induction k arbitrary: counter ls)
  case 0
  then show ?case
    by (subst explore.simps) (simp add: walk_def append_sample_def)
next
  case (Suc k)
  let ?ls1 = "append_sample ls (imf_dv eng st step nmd v0 counter)
                (imf_df eng st step nmd counter) (nmd * real_of_int counter)"
  from Suc.prems(2) have nb: "\<not> bailout st step nmd (imf_dv eng st step nmd v0 counter) counter"
    by (metis add.right_neutral mult_zero_left of_nat_0 zero_less_Suc)
  have b: "bailout st step nmd (imf_dv eng st step nmd v0 (counter + delta + int k * delta))
             (counter + delta + int k * delta)"
    using Suc.prems(1) by (simp only: int_Suc_shift)
  have n: "\<forall>j<k. \<not> bailout st step nmd (imf_dv eng st step nmd v0 (counter + delta + int j * delta))
             (counter + delta + int j * delta)"
    using Suc.prems(2) by (simp only: int_Suc_shift) auto
  have "explore eng st step nmd v0 delta counter ls =
          explore eng st step nmd v0 delta (counter + delta) ?ls1"
    using nb by (subst explore.simps) simp
  also have "\<dots> = Some (walk eng st step nmd v0 delta (counter + delta) ?ls1 k,
                        counter + delta + int k * delta)"
    by (rule Suc.IH [OF b n])
  also have "walk eng st step nmd v0 delta (counter + delta) ?ls1 k =
             walk eng st step nmd v0 delta counter ls (Suc k)"
    unfolding walk_def append_sample_def
    by (simp only: int_Suc_shift map_upt_Suc [of _ "Suc k"]) simp
  finally show ?case by (simp only: int_Suc_shift)
qed

lemma explore_Some_first:
  assumes "explore eng st step nmd v0 delta counter ls = Some r"
  shows "\<exists>k. snd r = counter + int k * delta \<and>
             bailout st step nmd (imf_dv eng st step nmd v0 (counter + int k * delta))
               (counter + int k * delta) \<and>
             (\<forall>j<k. \<not> bailout st step nmd (imf_dv eng st step nmd v0 (counter + int j * delta))
               (counter + int j * delta))"
proof (rule explore.raw_induct [where P = "\<lambda>eng st step nmd v0 delta counter ls r.
         \<exists>k. snd r = counter + int k * delta \<and>
             bailout st step nmd (imf_dv eng st step nmd v0 (counter + int k * delta))
               (counter + int k * delta) \<and>
             (\<forall>j<k. \<not> bailout st step nmd (imf_dv eng st step nmd v0 (counter + int j * delta))
               (counter + int j * delta))", OF _ assms], goal_cases)
  case (1 explore eng st step nmd v0 delta counter ls r)
  show ?case
  proof (cases "bailout st step nmd (imf_dv eng st step nmd v0 counter) counter")
    case True
    with 1(2) have "snd r = counter" by auto
    with True show ?thesis by (intro exI [of _ 0]) simp
  next
    case False
    with 1(2) have "explore eng st step nmd v0 delta (counter + delta)
          (append_sample ls (imf_dv eng st step nmd v0 counter)
             (imf_df eng st step nmd counter) (nmd * real_of_int counter)) = Some r"
      by simp
    from 1(1) [OF this] obtain k where
      k: "snd r = counter + delta + int k * delta"
         "bailout st step nmd (imf_dv eng st step nmd v0 (counter + delta + int k * delta))
               (counter + delta + int k * delta)"
         "\<forall>j<k. \<not> bailout st step nmd (imf_dv eng st step nmd v0 (counter + delta + int j * delta))
               (counter + delta + int j * delta)"
      by blast
    have "\<forall>j<Suc k. \<not> bailout st step nmd (imf_dv eng st step nmd v0 (counter + int j * delta))
               (counter + int j * delta)"
    proof (intro allI impI)
      fix j assume "j < Suc k"
      show "\<not> bailout st step nmd (imf_dv eng st step nmd v0 (counter + int j * delta))
               (counter + int j * delta)"
      proof (cases j)
        case 0
        with False show ?thesis by simp
      next
        case (Suc i)
        with \<open>j < Suc k\<close> k(3) have
          "\<not> bailout st step nmd (imf_dv eng st step nmd v0 (counter + delta + int i * delta))
               (counter + delta + int i * delta)" by simp
        then have "\<not> bailout st step nmd
               (imf_dv eng st step nmd v0 (counter + int (Suc i) * delta))
               (counter + int (Suc i) * delta)"
          by (simp only: int_Suc_shift not_False_eq_True)
        then show ?thesis unfolding Suc .
      qed
    qed
    moreover have "snd r = counter + int (Suc k) * delta"
      using k(1) by (simp only: int_Suc_shift)
    moreover have "bailout st step nmd (imf_dv eng st step nmd v0 (counter + int (Suc k) * delta))
               (counter + int (Suc k) * delta)"
      using k(2) by (simp only: int_Suc_shift)
    ultimately show ?thesis by blast
  qed
qed

subsection \<open>The system of one atom, evaluated\<close>

lemma upt_3: "[0..<3] = [0, 1, 2]"
  by (simp add: upt_rec numeral_eq_Suc)

lemma sqrt_quarter: "sqrt (1 / 4) = 1 / 2"
  by (simp add: real_sqrt_divide)

lemma one_atom_modes:
  "bind_modes diag_eigh one_atom [[1/4, 0, 0], [0, 1/4, 0], [0, 0, 1/4]] = Inr one_atom_imf"
proof -
  have "\<exists>st. bind_modes diag_eigh one_atom [[1/4, 0, 0], [0, 1/4, 0], [0, 0, 1/4]] = Inr st"
    by (simp add: bind_modes_def diag_eigh_def one_atom_def default_mover_def Let_def upt_3
          atLeastLessThanSuc)
  then show ?thesis by (auto simp add: one_atom_imf_def)
qed

lemma one_atom_bind: "IMF_bind diag_eigh (\<lambda>A. A) one_atom = Inr one_atom_imf"
proof -
  have "IMF_bind diag_eigh (\<lambda>A. A) one_atom =
          bind_modes diag_eigh one_atom [[1/4, 0, 0], [0, 1/4, 0], [0, 0, 1/4]]"
    by (simp add: IMF_bind_def bind_projected_def init_dynmatrix_def one_atom_def
          default_mover_def apply_asr_def reshape2_def upt_3)
  then show ?thesis by (simp only: one_atom_modes)
qed

lemma one_atom_fields:
  "imm_w2 (imm one_atom_imf) = [1/4, 1/4, 1/4]"
  "imm_w (imm one_atom_imf) = [1/2, 1/2, 1/2]"
  "imm_nmrms (imm one_atom_imf) = [1, 1, 1]"
  "imm_nmevib (imm one_atom_imf) = [1/4, 1/4, 1/4]"
  "imm_V (imm one_atom_imf) = [[1, 0, 0], [0, 1, 0], [0, 0, 1]]"
  "imm_q (imm one_atom_imf) = [0, 0, 0]"
  "imm_nz (imm one_atom_imf) = 0"
  "self_nevib one_atom_imf = 4"
  "self_fnmrms one_atom_imf = 1 / 2"
  "self_nprim one_atom_imf = 1"
  "self_athresh one_atom_imf = 1 / 100"
  "self_nbasis one_atom_imf = 10"
  "self_dof one_atom_imf = 3"
  "self_nint one_atom_imf = 101"
  by (simp_all add: one_atom_imf_def bind_modes_def diag_eigh_def one_atom_def default_mover_def
        Let_def upt_3 eye_def sqrt_quarter atLeastLessThanSuc)

lemma one_atom_mode: "mode_vector one_atom_imf 0 = [1, 0, 0]"
  by (simp add: mode_vector_def one_atom_fields)

lemma one_atom_nmd: "nmd_of one_atom_imf 0 0 = 1" "nmd_of one_atom_imf 0 1 = 1 / 2"
  by (simp_all add: nmd_of_def ffnmrms_def one_atom_fields)

lemma one_atom_energy:
  "harmonic one_atom_imf 0 nmd c + imf_dv well one_atom_imf 0 nmd 0 c = (nmd * real_of_int c)\<^sup>2"
  by (simp add: harmonic_def imf_dv_def displaced_def dev_def one_atom_mode one_atom_fields well_def)

lemma one_atom_bailout:
  "bailout one_atom_imf 0 nmd (imf_dv well one_atom_imf 0 nmd 0 c) c = (1 < (nmd * real_of_int c)\<^sup>2)"
  by (simp add: bailout_def one_atom_energy one_atom_fields)

lemma bailout_total_energy:
  "bailout st step nmd (imf_dv eng st step nmd v0 c) c =
     (self_nevib st * imm_nmevib (imm st) ! step < \<bar>total_energy eng st step nmd v0 c\<bar>)"
  by (simp add: bailout_def total_energy_def)

text \<open>
  C1, as the spec states it: the last sample of a walk has a total energy of magnitude
  at least \<open>nevib * nmevib\<close> and every earlier sample one strictly below it. The loop
  breaks on \<open>nevib * nmevib < abs(...)\<close>, so a sample whose energy is exactly the threshold
  is not the last one. In the system of one atom the threshold is 1 and the first
  displacement of the first pass has the total energy 1: the walk goes on to the second
  displacement.
\<close>

theorem C1_earlier_sample_at_threshold_counterexample:
  "explore well one_atom_imf 0 (nmd_of one_atom_imf 0 0) (equilibrium_v0 well one_atom_imf)
      (delta_counter 0) 1 \<lparr>vlist = [0], flist = [equilibrium_f0 well one_atom_imf 0], qlist = [0]\<rparr>
     = Some (\<lparr>vlist = [0, 7/8, 7/2], flist = [0, - 7/4, - 7/2], qlist = [0, 1, 2]\<rparr>, 2) \<and>
   \<not> (\<bar>total_energy well one_atom_imf 0 (nmd_of one_atom_imf 0 0)
          (equilibrium_v0 well one_atom_imf) 1\<bar>
        < self_nevib one_atom_imf * imm_nmevib (imm one_atom_imf) ! 0)"
proof -
  have v0: "equilibrium_v0 well one_atom_imf = 0"
    by (simp add: equilibrium_v0_def one_atom_fields well_def)
  have f0: "equilibrium_f0 well one_atom_imf 0 = 0"
    by (simp add: equilibrium_f0_def one_atom_fields well_def dot_def one_atom_mode)
  have "explore well one_atom_imf 0 1 0 1 1 \<lparr>vlist = [0], flist = [0], qlist = [0]\<rparr> =
          Some (walk well one_atom_imf 0 1 0 1 1 \<lparr>vlist = [0], flist = [0], qlist = [0]\<rparr> 1, 2)"
    using explore_walk [of one_atom_imf 0 1 well 0 1 1 1 "\<lparr>vlist = [0], flist = [0], qlist = [0]\<rparr>"]
    by (simp add: one_atom_bailout)
  moreover have "walk well one_atom_imf 0 1 0 1 1 \<lparr>vlist = [0], flist = [0], qlist = [0]\<rparr> 1 =
      \<lparr>vlist = [0, 7/8, 7/2], flist = [0, - 7/4, - 7/2], qlist = [0, 1, 2]\<rparr>"
    by (simp add: walk_def imf_dv_def imf_df_def harmonic_def displaced_def dev_def one_atom_mode
          one_atom_fields well_def dot_def lessThan_Suc numeral_eq_Suc)
  ultimately show ?thesis
    by (simp add: v0 f0 one_atom_nmd delta_counter_def total_energy_def one_atom_energy one_atom_fields)
qed

text \<open>
  C1, amended: in each direction (\<open>counter = 1\<close> with \<open>delta = delta_counter\<close>, and
  \<open>counter = -1\<close> with \<open>delta = - delta_counter\<close>) the walk returns exactly when some
  sample has a total energy whose magnitude exceeds \<open>nevib * nmevib\<close>; it has then appended
  the samples up to the first such one and stopped there. So the magnitude of the last
  sample is above the threshold and that of every earlier sample of the walk is at most
  the threshold. When no sample exceeds the threshold the walk does not return.
\<close>

theorem C1_explore_stops_at_first_exceeding:
  "(explore eng st step nmd v0 delta counter ls = Some (ls', c)) =
   (\<exists>k. c = counter + int k * delta \<and>
        ls' = walk eng st step nmd v0 delta counter ls k \<and>
        self_nevib st * imm_nmevib (imm st) ! step < \<bar>total_energy eng st step nmd v0 c\<bar> \<and>
        (\<forall>j<k. \<bar>total_energy eng st step nmd v0 (counter + int j * delta)\<bar>
                 \<le> self_nevib st * imm_nmevib (imm st) ! step))"
proof
  assume e: "explore eng st step nmd v0 delta counter ls = Some (ls', c)"
  from explore_Some_first [OF e] obtain k where
    k: "c = counter + int k * delta"
       "bailout st step nmd (imf_dv eng st step nmd v0 (counter + int k * delta))
               (counter + int k * delta)"
       "\<forall>j<k. \<not> bailout st step nmd (imf_dv eng st step nmd v0 (counter + int j * delta))
               (counter + int j * delta)"
    by auto
  from explore_walk [OF k(2,3), of ls] e have "ls' = walk eng st step nmd v0 delta counter ls k"
    by simp
  with k show "\<exists>k. c = counter + int k * delta \<and>
        ls' = walk eng st step nmd v0 delta counter ls k \<and>
        self_nevib st * imm_nmevib (imm st) ! step < \<bar>total_energy eng st step nmd v0 c\<bar> \<and>
        (\<forall>j<k. \<bar>total_energy eng st step nmd v0 (counter + int j * delta)\<bar>
                 \<le> self_nevib st * imm_nmevib (imm st) ! step)"
    by (intro exI [of _ k]) (simp add: bailout_total_energy not_less)
next
  assume "\<exists>k. c = counter + int k * delta \<and>
        ls' = walk eng st step nmd v0 delta counter ls k \<and>
        self_nevib st * imm_nmevib (imm st) ! step < \<bar>total_energy eng st step nmd v0 c\<bar> \<and>
        (\<forall>j<k. \<bar>total_energy eng st step nmd v0 (counter + int j * delta)\<bar>
                 \<le> self_nevib st * imm_nmevib (imm st) ! step)"
  then obtain k where
    k: "c = counter + int k * delta" "ls' = walk eng st step nmd v0 delta counter ls k"
       "self_nevib st * imm_nmevib (imm st) ! step
          < \<bar>total_energy eng st step nmd v0 (counter + int k * delta)\<bar>"
       "\<forall>j<k. \<bar>total_energy eng st step nmd v0 (counter + int j * delta)\<bar>
                 \<le> self_nevib st * imm_nmevib (imm st) ! step"
    by auto
  have "explore eng st step nmd v0 delta counter ls =
          Some (walk eng st step nmd v0 delta counter ls k, counter + int k * delta)"
    using k(3,4) by (intro explore_walk) (simp_all add: bailout_total_energy not_less)
  with k(1,2) show "explore eng st step nmd v0 delta counter ls = Some (ls', c)" by simp
qed

text \<open>
  The negative direction of a second pass in the system of one atom (step \<open>1/2\<close>, stride
  2): the sample at \<open>-1/2\<close> has the energy \<open>1/4\<close>, the one at \<open>-3/2\<close> has \<open>9/4\<close> and ends the
  walk.
\<close>

theorem C1_explore_stops_at_first_exceeding_witness:
  "explore well one_atom_imf 0 (1 / 2) 0 (- 2) (- 1) \<lparr>vlist = [], flist = [], qlist = []\<rparr>
     = Some (\<lparr>vlist = [7/32, 63/32], flist = [7/8, 21/8], qlist = [- 1/2, - 3/2]\<rparr>, - 3)"
proof -
  have "walk well one_atom_imf 0 (1/2) 0 (- 2) (- 1) \<lparr>vlist = [], flist = [], qlist = []\<rparr> 1 =
      \<lparr>vlist = [7/32, 63/32], flist = [7/8, 21/8], qlist = [- 1/2, - 3/2]\<rparr>"
    by (simp add: walk_def imf_dv_def imf_df_def harmonic_def displaced_def dev_def one_atom_mode
          one_atom_fields well_def dot_def lessThan_Suc numeral_eq_Suc power2_eq_square)
  moreover have "\<exists>k. (- 3::int) = - 1 + int k * (- 2) \<and>
        \<lparr>vlist = [7/32, 63/32], flist = [7/8, 21/8], qlist = [- 1/2, - 3/2]\<rparr> =
          walk well one_atom_imf 0 (1/2) 0 (- 2) (- 1) \<lparr>vlist = [], flist = [], qlist = []\<rparr> k \<and>
        self_nevib one_atom_imf * imm_nmevib (imm one_atom_imf) ! 0
          < \<bar>total_energy well one_atom_imf 0 (1/2) 0 (- 3)\<bar> \<and>
        (\<forall>j<k. \<bar>total_energy well one_atom_imf 0 (1/2) 0 (- 1 + int j * (- 2))\<bar>
                 \<le> self_nevib one_atom_imf * imm_nmevib (imm one_atom_imf) ! 0)"
    using calculation
    by (intro exI [of _ 1])
       (simp add: total_energy_def one_atom_energy one_atom_fields power2_eq_square)
  ultimately show ?thesis
    using C1_explore_stops_at_first_exceeding [of well one_atom_imf 0 "1/2" 0 "- 2" "- 1"
        "\<lparr>vlist = [], flist = [], qlist = []\<rparr>"
        "\<lparr>vlist = [7/32, 63/32], flist = [7/8, 21/8], qlist = [- 1/2, - 3/2]\<rparr>" "- 3"]
    by blast
qed

subsection \<open>PC.step\<close>

lemma pc_explore_first:
  assumes "pc_exceeds eng st step nmd ffn v0 (counter + int k * delta)"
      and "\<forall>j<k. \<not> pc_exceeds eng st step nmd ffn v0 (counter + int j * delta)"
  shows "pc_explore eng st step nmd ffn v0 delta counter =
           Some (pc_dv eng st step nmd v0 (counter + int k * delta),
                 pc_df eng st step nmd (counter + int k * delta),
                 nmd * real_of_int (counter + int k * delta), counter + int k * delta)"
  using assms
proof (induction k arbitrary: counter)
  case 0
  then show ?case by (subst pc_explore.simps) simp
next
  case (Suc k)
  from Suc.prems(2) have nb: "\<not> pc_exceeds eng st step nmd ffn v0 counter"
    by (metis add.right_neutral mult_zero_left of_nat_0 zero_less_Suc)
  have b: "pc_exceeds eng st step nmd ffn v0 (counter + delta + int k * delta)"
    using Suc.prems(1) by (simp only: int_Suc_shift)
  have n: "\<forall>j<k. \<not> pc_exceeds eng st step nmd ffn v0 (counter + delta + int j * delta)"
    using Suc.prems(2) by (simp only: int_Suc_shift) auto
  have "pc_explore eng st step nmd ffn v0 delta counter =
          pc_explore eng st step nmd ffn v0 delta (counter + delta)"
    using nb by (subst pc_explore.simps) simp
  also note Suc.IH [OF b n]
  finally show ?case by (simp only: int_Suc_shift)
qed

lemma pc_explore_Some:
  assumes "pc_explore eng st step nmd ffn v0 delta counter = Some r"
  shows "\<exists>k. pc_exceeds eng st step nmd ffn v0 (counter + int k * delta) \<and>
             (\<forall>j<k. \<not> pc_exceeds eng st step nmd ffn v0 (counter + int j * delta))"
proof (rule pc_explore.raw_induct [where P = "\<lambda>eng st step nmd ffn v0 delta counter r.
         \<exists>k. pc_exceeds eng st step nmd ffn v0 (counter + int k * delta) \<and>
             (\<forall>j<k. \<not> pc_exceeds eng st step nmd ffn v0 (counter + int j * delta))",
         OF _ assms], goal_cases)
  case (1 pc_explore eng st step nmd ffn v0 delta counter r)
  show ?case
  proof (cases "pc_exceeds eng st step nmd ffn v0 counter")
    case True
    then show ?thesis by (intro exI [of _ 0]) simp
  next
    case False
    with 1(2) have "pc_explore eng st step nmd ffn v0 delta (counter + delta) = Some r"
      by simp
    from 1(1) [OF this] obtain k where
      k: "pc_exceeds eng st step nmd ffn v0 (counter + delta + int k * delta)"
         "\<forall>j<k. \<not> pc_exceeds eng st step nmd ffn v0 (counter + delta + int j * delta)"
      by blast
    have "\<forall>j<Suc k. \<not> pc_exceeds eng st step nmd ffn v0 (counter + int j * delta)"
    proof (intro allI impI)
      fix j assume "j < Suc k"
      show "\<not> pc_exceeds eng st step nmd ffn v0 (counter + int j * delta)"
      proof (cases j)
        case 0
        with False show ?thesis by simp
      next
        case (Suc i)
        with \<open>j < Suc k\<close> k(2) have
          "\<not> pc_exceeds eng st step nmd ffn v0 (counter + delta + int i * delta)" by simp
        then have "\<not> pc_exceeds eng st step nmd ffn v0 (counter + int (Suc i) * delta)"
          by (simp only: int_Suc_shift not_False_eq_True)
        then show ?thesis unfolding Suc .
      qed
    qed
    moreover have "pc_exceeds eng st step nmd ffn v0 (counter + int (Suc k) * delta)"
      using k(1) by (simp only: int_Suc_shift)
    ultimately show ?thesis by blast
  qed
qed

lemma PC_bind_fnmrms:
  "PC_bind eigh eigvecs mv = Inr p \<Longrightarrow> self_fnmrms (pc_imf p) = 2"
  by (auto simp add: PC_bind_def split: sum.splits)

lemma first_exceeding:
  assumes "\<exists>k::nat. P k"
  shows "\<exists>k. P k \<and> (\<forall>j<k. \<not> P j)"
proof -
  from assms obtain k where "P k" by blast
  then have "P (LEAST k. P k)" by (rule LeastI)
  moreover have "\<forall>j<LEAST k. P k. \<not> P j" using not_less_Least by blast
  ultimately show ?thesis by blast
qed

lemma pc_explore_pos:
  assumes "pc_exceeds eng st step nmd ffn v0 (1 + int k)"
      and "\<forall>j<k. \<not> pc_exceeds eng st step nmd ffn v0 (1 + int j)"
  shows "pc_explore eng st step nmd ffn v0 1 1 =
           Some (pc_dv eng st step nmd v0 (1 + int k), pc_df eng st step nmd (1 + int k),
                 nmd * real_of_int (1 + int k), 1 + int k)"
  using pc_explore_first [of eng st step nmd ffn v0 1 k 1] assms by simp

lemma pc_explore_neg:
  assumes "pc_exceeds eng st step nmd ffn v0 (- 1 - int k)"
      and "\<forall>j<k. \<not> pc_exceeds eng st step nmd ffn v0 (- 1 - int j)"
  shows "pc_explore eng st step nmd ffn v0 (- 1) (- 1) =
           Some (pc_dv eng st step nmd v0 (- 1 - int k), pc_df eng st step nmd (- 1 - int k),
                 nmd * real_of_int (- 1 - int k), - 1 - int k)"
  using pc_explore_first [of eng st step nmd ffn v0 "- 1" k "- 1"] assms by simp

lemma pc_explore_pos_iff:
  "(\<exists>r. pc_explore eng st step nmd ffn v0 1 1 = Some r) =
   (\<exists>k. pc_exceeds eng st step nmd ffn v0 (1 + int k))"
proof
  assume "\<exists>r. pc_explore eng st step nmd ffn v0 1 1 = Some r"
  then obtain r where "pc_explore eng st step nmd ffn v0 1 1 = Some r" by blast
  from pc_explore_Some [OF this] show "\<exists>k. pc_exceeds eng st step nmd ffn v0 (1 + int k)"
    by auto
next
  assume "\<exists>k. pc_exceeds eng st step nmd ffn v0 (1 + int k)"
  from first_exceeding [OF this] obtain k where
    "pc_exceeds eng st step nmd ffn v0 (1 + int k)"
    "\<forall>j<k. \<not> pc_exceeds eng st step nmd ffn v0 (1 + int j)"
    by blast
  from pc_explore_pos [OF this] show "\<exists>r. pc_explore eng st step nmd ffn v0 1 1 = Some r"
    by blast
qed

lemma pc_explore_neg_iff:
  "(\<exists>r. pc_explore eng st step nmd ffn v0 (- 1) (- 1) = Some r) =
   (\<exists>k. pc_exceeds eng st step nmd ffn v0 (- 1 - int k))"
proof
  assume "\<exists>r. pc_explore eng st step nmd ffn v0 (- 1) (- 1) = Some r"
  then obtain r where "pc_explore eng st step nmd ffn v0 (- 1) (- 1) = Some r" by blast
  from pc_explore_Some [OF this] show "\<exists>k. pc_exceeds eng st step nmd ffn v0 (- 1 - int k)"
    by auto
next
  assume "\<exists>k. pc_exceeds eng st step nmd ffn v0 (- 1 - int k)"
  from first_exceeding [OF this] obtain k where
    "pc_exceeds eng st step nmd ffn v0 (- 1 - int k)"
    "\<forall>j<k. \<not> pc_exceeds eng st step nmd ffn v0 (- 1 - int j)"
    by blast
  from pc_explore_neg [OF this]
  show "\<exists>r. pc_explore eng st step nmd ffn v0 (- 1) (- 1) = Some r"
    by blast
qed

lemma PC_step_returns:
  assumes "\<not> \<bar>imm_w2 (imm (pc_imf p)) ! step\<bar> < 1 / 10 ^ 10"
  shows "(\<exists>r. PC_step eng polyfit p step = Some r) =
         ((\<exists>r. pc_explore eng (pc_imf p) step
                  (self_fnmrms (pc_imf p) * imm_nmrms (imm (pc_imf p)) ! step)
                  (self_fnmrms (pc_imf p)) (equilibrium_v0 eng (pc_imf p)) 1 1 = Some r) \<and>
          (\<exists>r. pc_explore eng (pc_imf p) step
                  (self_fnmrms (pc_imf p) * imm_nmrms (imm (pc_imf p)) ! step)
                  (self_fnmrms (pc_imf p)) (equilibrium_v0 eng (pc_imf p)) (- 1) (- 1) = Some r))"
  using assms by (auto simp add: PC_step_def Let_def split: option.splits)

lemma PC_step_value:
  assumes "\<not> \<bar>imm_w2 (imm (pc_imf p)) ! step\<bar> < 1 / 10 ^ 10"
    and "pc_explore eng (pc_imf p) step
           (self_fnmrms (pc_imf p) * imm_nmrms (imm (pc_imf p)) ! step)
           (self_fnmrms (pc_imf p)) (equilibrium_v0 eng (pc_imf p)) 1 1 = Some (dv1, df1, q1, c1)"
    and "pc_explore eng (pc_imf p) step
           (self_fnmrms (pc_imf p) * imm_nmrms (imm (pc_imf p)) ! step)
           (self_fnmrms (pc_imf p)) (equilibrium_v0 eng (pc_imf p)) (- 1) (- 1)
           = Some (dv2, df2, q2, c2)"
  shows "PC_step eng polyfit p step =
     Some (if fst (polyfit [0, q1, q2] [0, dv1, dv2]) = 0 then Inl (NonFinite ''qpc'')
           else Inr (p\<lparr>pc_imf := (pc_imf p)\<lparr>self_v0 := equilibrium_v0 eng (pc_imf p)\<rparr>,
                       qpc := map2 (\<lambda>x y. x + y) (qpc p)
                                (map (\<lambda>x. x * (- fst (snd (polyfit [0, q1, q2] [0, dv1, dv2]))
                                               / (2 * fst (polyfit [0, q1, q2] [0, dv1, dv2])))
                                          * sqrt (self_nprim (pc_imf p)))
                                   (mode_vector (pc_imf p) step)),
                       w2pc := (w2pc p)[step := 2 * fst (polyfit [0, q1, q2] [0, dv1, dv2])]\<rparr>,
                     Some \<lparr>vlist = [0, dv1, dv2],
                           flist = [equilibrium_f0 eng (pc_imf p) step, df1, df2],
                           qlist = [0, q1, q2]\<rparr>))"
  using assms by (simp add: PC_step_def Let_def field_simps)

text \<open>
  C7, amended: PC.bind replaces the configured \<open>fnmrms\<close> by the constant 2.0. A mode with
  \<open>abs(w2) < 1e-10\<close> is skipped. For any other mode the step returns exactly when, in each
  direction, some displacement has an energy \<open>dv + 0.5 * w2 * q^2\<close> above
  \<open>nmevib * fnmrms * 0.75\<close> (with the \<open>fnmrms\<close> of the calculator); each pass then stops at
  the first such displacement and only that displacement is stored, so the quadratic is
  fitted to three samples (the equilibrium and the two ends); \<open>w2pc[step]\<close> becomes \<open>2 * a\<close>
  and the shift \<open>- b / (2 * a) * sqrt(nprim)\<close> times the mode vector is added to \<open>qpc\<close>.
  When the fit gives \<open>a = 0\<close> the shift is not a number, and neither is \<open>qpc\<close> after it.
\<close>

theorem C7_pc_step:
  "(PC_bind eigh eigvecs mv = Inr p0 \<longrightarrow> self_fnmrms (pc_imf p0) = 2) \<and>
   (let st = pc_imf p;
        ffn = self_fnmrms st;
        nmd = ffn * imm_nmrms (imm st) ! step;
        v0 = pots eng (imm_q (imm st)) / self_nprim st;
        dv = (\<lambda>c. pots eng (displaced st step nmd c) / self_nprim st - v0);
        exceeds = (\<lambda>c. dv c + 0.5 * imm_w2 (imm st) ! step * (nmd * real_of_int c)\<^sup>2
                          > imm_nmevib (imm st) ! step * ffn * 0.75)
    in (\<bar>imm_w2 (imm st) ! step\<bar> < 1 / 10 ^ 10 \<longrightarrow>
          PC_step eng polyfit p step = Some (Inr (p, None))) \<and>
       (\<not> \<bar>imm_w2 (imm st) ! step\<bar> < 1 / 10 ^ 10 \<longrightarrow>
          ((\<exists>r. PC_step eng polyfit p step = Some r) =
             ((\<exists>k. exceeds (1 + int k)) \<and> (\<exists>k. exceeds (- 1 - int k)))) \<and>
          (\<forall>kp kn.
             exceeds (1 + int kp) \<and> (\<forall>j<kp. \<not> exceeds (1 + int j)) \<and>
             exceeds (- 1 - int kn) \<and> (\<forall>j<kn. \<not> exceeds (- 1 - int j)) \<longrightarrow>
             (let ls = \<lparr>vlist = [0, dv (1 + int kp), dv (- 1 - int kn)],
                        flist = [equilibrium_f0 eng st step, pc_df eng st step nmd (1 + int kp),
                                 pc_df eng st step nmd (- 1 - int kn)],
                        qlist = [0, nmd * real_of_int (1 + int kp),
                                 nmd * real_of_int (- 1 - int kn)]\<rparr>;
                  a = fst (polyfit (qlist ls) (vlist ls));
                  b = fst (snd (polyfit (qlist ls) (vlist ls)))
              in PC_step eng polyfit p step =
                   Some (if a = 0 then Inl (NonFinite ''qpc'')
                         else Inr (p\<lparr>pc_imf := st\<lparr>self_v0 := v0\<rparr>,
                                     qpc := map2 (\<lambda>x y. x + y) (qpc p)
                                              (map (\<lambda>x. x * (- b / (2 * a)) * sqrt (self_nprim st))
                                                 (mode_vector st step)),
                                     w2pc := (w2pc p)[step := 2 * a]\<rparr>,
                                   Some ls))))))"
proof -
  let ?st = "pc_imf p"
  let ?ffn = "self_fnmrms ?st"
  let ?nmd = "?ffn * imm_nmrms (imm ?st) ! step"
  let ?v0 = "equilibrium_v0 eng ?st"
  have v0: "pots eng (imm_q (imm ?st)) / self_nprim ?st = ?v0"
    by (simp add: equilibrium_v0_def)
  have dv: "pots eng (displaced ?st step ?nmd c) / self_nprim ?st - ?v0 = pc_dv eng ?st step ?nmd ?v0 c"
    for c by (simp add: pc_dv_def)
  have ex: "(pc_dv eng ?st step ?nmd ?v0 c + 0.5 * imm_w2 (imm ?st) ! step * (?nmd * real_of_int c)\<^sup>2
               > imm_nmevib (imm ?st) ! step * ?ffn * 0.75)
            = pc_exceeds eng ?st step ?nmd ?ffn ?v0 c" for c
    by (simp add: pc_exceeds_def harmonic_def)
  have skip: "\<bar>imm_w2 (imm ?st) ! step\<bar> < 1 / 10 ^ 10 \<longrightarrow>
          PC_step eng polyfit p step = Some (Inr (p, None))"
    by (simp add: PC_step_def Let_def)
  have ret: "(\<exists>r. PC_step eng polyfit p step = Some r) =
             ((\<exists>k. pc_exceeds eng ?st step ?nmd ?ffn ?v0 (1 + int k)) \<and>
              (\<exists>k. pc_exceeds eng ?st step ?nmd ?ffn ?v0 (- 1 - int k)))"
    if "\<not> \<bar>imm_w2 (imm ?st) ! step\<bar> < 1 / 10 ^ 10"
    unfolding PC_step_returns [OF that] pc_explore_pos_iff pc_explore_neg_iff ..
  have val: "PC_step eng polyfit p step =
     Some (if fst (polyfit [0, ?nmd * real_of_int (1 + int kp), ?nmd * real_of_int (- 1 - int kn)]
                     [0, pc_dv eng ?st step ?nmd ?v0 (1 + int kp),
                      pc_dv eng ?st step ?nmd ?v0 (- 1 - int kn)]) = 0
           then Inl (NonFinite ''qpc'')
           else Inr (p\<lparr>pc_imf := ?st\<lparr>self_v0 := ?v0\<rparr>,
                       qpc := map2 (\<lambda>x y. x + y) (qpc p)
                                (map (\<lambda>x. x * (- fst (snd (polyfit
                                        [0, ?nmd * real_of_int (1 + int kp),
                                         ?nmd * real_of_int (- 1 - int kn)]
                                        [0, pc_dv eng ?st step ?nmd ?v0 (1 + int kp),
                                         pc_dv eng ?st step ?nmd ?v0 (- 1 - int kn)]))
                                      / (2 * fst (polyfit
                                        [0, ?nmd * real_of_int (1 + int kp),
                                         ?nmd * real_of_int (- 1 - int kn)]
                                        [0, pc_dv eng ?st step ?nmd ?v0 (1 + int kp),
                                         pc_dv eng ?st step ?nmd ?v0 (- 1 - int kn)])))
                                          * sqrt (self_nprim ?st))
                                   (mode_vector ?st step)),
                       w2pc := (w2pc p)[step := 2 * fst (polyfit
                                        [0, ?nmd * real_of_int (1 + int kp),
                                         ?nmd * real_of_int (- 1 - int kn)]
                                        [0, pc_dv eng ?st step ?nmd ?v0 (1 + int kp),
                                         pc_dv eng ?st step ?nmd ?v0 (- 1 - int kn)])]\<rparr>,
                     Some \<lparr>vlist = [0, pc_dv eng ?st step ?nmd ?v0 (1 + int kp),
                                    pc_dv eng ?st step ?nmd ?v0 (- 1 - int kn)],
                           flist = [equilibrium_f0 eng ?st step,
                                    pc_df eng ?st step ?nmd (1 + int kp),
                                    pc_df eng ?st step ?nmd (- 1 - int kn)],
                           qlist = [0, ?nmd * real_of_int (1 + int kp),
                                    ?nmd * real_of_int (- 1 - int kn)]\<rparr>))"
    if w: "\<not> \<bar>imm_w2 (imm ?st) ! step\<bar> < 1 / 10 ^ 10"
      and kp: "pc_exceeds eng ?st step ?nmd ?ffn ?v0 (1 + int kp)"
              "\<forall>j<kp. \<not> pc_exceeds eng ?st step ?nmd ?ffn ?v0 (1 + int j)"
      and kn: "pc_exceeds eng ?st step ?nmd ?ffn ?v0 (- 1 - int kn)"
              "\<forall>j<kn. \<not> pc_exceeds eng ?st step ?nmd ?ffn ?v0 (- 1 - int j)"
    for kp kn
    using w pc_explore_pos [OF kp] pc_explore_neg [OF kn] by (rule PC_step_value)
  show ?thesis
    unfolding Let_def v0 dv ex
  proof (intro conjI impI allI)
    assume "PC_bind eigh eigvecs mv = Inr p0"
    then show "self_fnmrms (pc_imf p0) = 2" by (rule PC_bind_fnmrms)
  next
    assume "\<bar>imm_w2 (imm ?st) ! step\<bar> < 1 / 10 ^ 10"
    with skip show "PC_step eng polyfit p step = Some (Inr (p, None))" by simp
  next
    assume "\<not> \<bar>imm_w2 (imm ?st) ! step\<bar> < 1 / 10 ^ 10"
    then show "(\<exists>r. PC_step eng polyfit p step = Some r) =
             ((\<exists>k. pc_exceeds eng ?st step ?nmd ?ffn ?v0 (1 + int k)) \<and>
              (\<exists>k. pc_exceeds eng ?st step ?nmd ?ffn ?v0 (- 1 - int k)))"
      by (rule ret)
  next
    fix kp kn
    assume w: "\<not> \<bar>imm_w2 (imm ?st) ! step\<bar> < 1 / 10 ^ 10"
      and k: "pc_exceeds eng ?st step ?nmd ?ffn ?v0 (1 + int kp) \<and>
              (\<forall>j<kp. \<not> pc_exceeds eng ?st step ?nmd ?ffn ?v0 (1 + int j)) \<and>
              pc_exceeds eng ?st step ?nmd ?ffn ?v0 (- 1 - int kn) \<and>
              (\<forall>j<kn. \<not> pc_exceeds eng ?st step ?nmd ?ffn ?v0 (- 1 - int j))"
    from val [OF w, of kp kn] k
    show "PC_step eng polyfit p step =
       Some (if fst (polyfit
                       (qlist \<lparr>vlist = [0, pc_dv eng ?st step ?nmd ?v0 (1 + int kp),
                                    pc_dv eng ?st step ?nmd ?v0 (- 1 - int kn)],
                           flist = [equilibrium_f0 eng ?st step,
                                    pc_df eng ?st step ?nmd (1 + int kp),
                                    pc_df eng ?st step ?nmd (- 1 - int kn)],
                           qlist = [0, ?nmd * real_of_int (1 + int kp),
                                    ?nmd * real_of_int (- 1 - int kn)]\<rparr>)
                       (vlist \<lparr>vlist = [0, pc_dv eng ?st step ?nmd ?v0 (1 + int kp),
                                    pc_dv eng ?st step ?nmd ?v0 (- 1 - int kn)],
                           flist = [equilibrium_f0 eng ?st step,
                                    pc_df eng ?st step ?nmd (1 + int kp),
                                    pc_df eng ?st step ?nmd (- 1 - int kn)],
                           qlist = [0, ?nmd * real_of_int (1 + int kp),
                                    ?nmd * real_of_int (- 1 - int kn)]\<rparr>)) = 0
             then Inl (NonFinite ''qpc'')
             else Inr (p\<lparr>pc_imf := ?st\<lparr>self_v0 := ?v0\<rparr>,
                   qpc := map2 (\<lambda>x y. x + y) (qpc p)
                     (map (\<lambda>x. x * (- fst (snd (polyfit
                       (qlist \<lparr>vlist = [0, pc_dv eng ?st step ?nmd ?v0 (1 + int kp),
                                    pc_dv eng ?st step ?nmd ?v0 (- 1 - int kn)],
                           flist = [equilibrium_f0 eng ?st step,
                                    pc_df eng ?st step ?nmd (1 + int kp),
                                    pc_df eng ?st step ?nmd (- 1 - int kn)],
                           qlist = [0, ?nmd * real_of_int (1 + int kp),
                                    ?nmd * real_of_int (- 1 - int kn)]\<rparr>)
                       (vlist \<lparr>vlist = [0, pc_dv eng ?st step ?nmd ?v0 (1 + int kp),
                                    pc_dv eng ?st step ?nmd ?v0 (- 1 - int kn)],
                           flist = [equilibrium_f0 eng ?st step,
                                    pc_df eng ?st step ?nmd (1 + int kp),
                                    pc_df eng ?st step ?nmd (- 1 - int kn)],
                           qlist = [0, ?nmd * real_of_int (1 + int kp),
                                    ?nmd * real_of_int (- 1 - int kn)]\<rparr>)))
                       / (2 * fst (polyfit
                       (qlist \<lparr>vlist = [0, pc_dv eng ?st step ?nmd ?v0 (1 + int kp),
                                    pc_dv eng ?st step ?nmd ?v0 (- 1 - int kn)],
                           flist = [equilibrium_f0 eng ?st step,
                                    pc_df eng ?st step ?nmd (1 + int kp),
                                    pc_df eng ?st step ?nmd (- 1 - int kn)],
                           qlist = [0, ?nmd * real_of_int (1 + int kp),
                                    ?nmd * real_of_int (- 1 - int kn)]\<rparr>)
                       (vlist \<lparr>vlist = [0, pc_dv eng ?st step ?nmd ?v0 (1 + int kp),
                                    pc_dv eng ?st step ?nmd ?v0 (- 1 - int kn)],
                           flist = [equilibrium_f0 eng ?st step,
                                    pc_df eng ?st step ?nmd (1 + int kp),
                                    pc_df eng ?st step ?nmd (- 1 - int kn)],
                           qlist = [0, ?nmd * real_of_int (1 + int kp),
                                    ?nmd * real_of_int (- 1 - int kn)]\<rparr>))))
                         * sqrt (self_nprim ?st))
                        (mode_vector ?st step)),
                   w2pc := (w2pc p)[step := 2 * fst (polyfit
                       (qlist \<lparr>vlist = [0, pc_dv eng ?st step ?nmd ?v0 (1 + int kp),
                                    pc_dv eng ?st step ?nmd ?v0 (- 1 - int kn)],
                           flist = [equilibrium_f0 eng ?st step,
                                    pc_df eng ?st step ?nmd (1 + int kp),
                                    pc_df eng ?st step ?nmd (- 1 - int kn)],
                           qlist = [0, ?nmd * real_of_int (1 + int kp),
                                    ?nmd * real_of_int (- 1 - int kn)]\<rparr>)
                       (vlist \<lparr>vlist = [0, pc_dv eng ?st step ?nmd ?v0 (1 + int kp),
                                    pc_dv eng ?st step ?nmd ?v0 (- 1 - int kn)],
                           flist = [equilibrium_f0 eng ?st step,
                                    pc_df eng ?st step ?nmd (1 + int kp),
                                    pc_df eng ?st step ?nmd (- 1 - int kn)],
                           qlist = [0, ?nmd * real_of_int (1 + int kp),
                                    ?nmd * real_of_int (- 1 - int kn)]\<rparr>))]\<rparr>,
                 Some \<lparr>vlist = [0, pc_dv eng ?st step ?nmd ?v0 (1 + int kp),
                                    pc_dv eng ?st step ?nmd ?v0 (- 1 - int kn)],
                           flist = [equilibrium_f0 eng ?st step,
                                    pc_df eng ?st step ?nmd (1 + int kp),
                                    pc_df eng ?st step ?nmd (- 1 - int kn)],
                           qlist = [0, ?nmd * real_of_int (1 + int kp),
                                    ?nmd * real_of_int (- 1 - int kn)]\<rparr>))"
      by simp
  qed
qed

lemma one_atom_PC_bind: "PC_bind diag_eigh (\<lambda>A. A) one_atom = Inr one_atom_pc"
  by (simp add: PC_bind_def one_atom_bind one_atom_pc_def one_atom_fields)

lemma one_atom_pc_fields:
  "imm_w2 (imm (pc_imf one_atom_pc)) = [1/4, 1/4, 1/4]"
  "imm_nmrms (imm (pc_imf one_atom_pc)) = [1, 1, 1]"
  "imm_nmevib (imm (pc_imf one_atom_pc)) = [1/4, 1/4, 1/4]"
  "imm_q (imm (pc_imf one_atom_pc)) = [0, 0, 0]"
  "self_fnmrms (pc_imf one_atom_pc) = 2"
  "self_nprim (pc_imf one_atom_pc) = 1"
  "mode_vector (pc_imf one_atom_pc) 0 = [1, 0, 0]"
  "qpc one_atom_pc = [0, 0, 0]"
  "w2pc one_atom_pc = [0, 0, 0]"
  by (simp_all add: one_atom_pc_def one_atom_fields mode_vector_def)

lemma hill_energy:
  "pc_dv hill (pc_imf one_atom_pc) 0 2 0 c + harmonic (pc_imf one_atom_pc) 0 2 c
     = (real_of_int c)\<^sup>2 / 4"
  by (simp add: pc_dv_def harmonic_def displaced_def dev_def one_atom_pc_fields hill_def
        power2_eq_square)

lemma hill_exceeds:
  "pc_exceeds hill (pc_imf one_atom_pc) 0 2 2 0 c = (3 / 8 < (real_of_int c)\<^sup>2 / 4)"
  unfolding pc_exceeds_def hill_energy by (simp add: one_atom_pc_fields)

lemma hill_explore_pos:
  "pc_explore hill (pc_imf one_atom_pc) 0 2 2 0 1 1 = Some (- 1, 1 / 2, 4, 2)"
proof -
  have "pc_explore hill (pc_imf one_atom_pc) 0 2 2 0 1 1 =
          Some (pc_dv hill (pc_imf one_atom_pc) 0 2 0 (1 + int 1 * 1),
                pc_df hill (pc_imf one_atom_pc) 0 2 (1 + int 1 * 1),
                2 * real_of_int (1 + int 1 * 1), 1 + int 1 * 1)"
    by (rule pc_explore_first) (simp_all add: hill_exceeds)
  then show ?thesis
    by (simp add: pc_dv_def pc_df_def displaced_def dev_def one_atom_pc_fields
          hill_def dot_def lessThan_Suc numeral_eq_Suc)
qed

lemma hill_explore_neg:
  "pc_explore hill (pc_imf one_atom_pc) 0 2 2 0 (- 1) (- 1) = Some (- 1, - (1 / 2), - 4, - 2)"
proof -
  have "pc_explore hill (pc_imf one_atom_pc) 0 2 2 0 (- 1) (- 1) =
          Some (pc_dv hill (pc_imf one_atom_pc) 0 2 0 (- 1 + int 1 * (- 1)),
                pc_df hill (pc_imf one_atom_pc) 0 2 (- 1 + int 1 * (- 1)),
                2 * real_of_int (- 1 + int 1 * (- 1)), - 1 + int 1 * (- 1))"
    by (rule pc_explore_first) (simp_all add: hill_exceeds)
  then show ?thesis
    by (simp add: pc_dv_def pc_df_def displaced_def dev_def one_atom_pc_fields
          hill_def dot_def lessThan_Suc numeral_eq_Suc)
qed

lemma hill_PC_step:
  "PC_step hill polyfit3 one_atom_pc 0 =
     Some (Inr (one_atom_pc\<lparr>pc_imf := (pc_imf one_atom_pc)\<lparr>self_v0 := 0\<rparr>,
                       qpc := [0, 0, 0], w2pc := [- (1 / 8), 0, 0]\<rparr>,
           Some \<lparr>vlist = [0, - 1, - 1], flist = [0, 1 / 2, - (1 / 2)], qlist = [0, 4, - 4]\<rparr>))"
proof -
  have v0: "equilibrium_v0 hill (pc_imf one_atom_pc) = 0"
    by (simp add: equilibrium_v0_def one_atom_pc_fields hill_def)
  have f0: "equilibrium_f0 hill (pc_imf one_atom_pc) 0 = 0"
    by (simp add: equilibrium_f0_def one_atom_pc_fields hill_def dot_def)
  have pf: "polyfit3 [0, 4, - 4] [0, - 1, - 1] = (- (1 / 16), 0, 0)"
    by (simp add: polyfit3_def Let_def)
  show ?thesis
    by (simp add: PC_step_def Let_def v0 f0 one_atom_pc_fields hill_explore_pos hill_explore_neg pf)
qed

text \<open>
  C7, as the spec states it: each pass stops at the first displacement whose energy
  exceeds \<open>nmevib * fnmrms * 0.75\<close>, \<open>fnmrms\<close> being the configured fraction. The system
  of one atom is configured with \<open>fnmrms = 1/2\<close>, which makes that bound \<open>3/32\<close>; the first
  displacement has the energy \<open>1/4\<close>, yet both passes go on to the second displacement
  (the samples are at 4 and -4, two steps of 2): the bound in use is \<open>3/8\<close>.
\<close>

theorem C7_configured_fnmrms_counterexample:
  "PC_bind diag_eigh (\<lambda>A. A) one_atom = Inr one_atom_pc \<and>
   imm_fnmrms one_atom = 1 / 2 \<and>
   map_option (map_sum id snd) (PC_step hill polyfit3 one_atom_pc 0) =
     Some (Inr (Some \<lparr>vlist = [0, - 1, - 1], flist = [0, 1 / 2, - (1 / 2)],
                       qlist = [0, 4, - 4]\<rparr>)) \<and>
   pc_dv hill (pc_imf one_atom_pc) 0 2 0 1 + harmonic (pc_imf one_atom_pc) 0 2 1
     > imm_nmevib (imm (pc_imf one_atom_pc)) ! 0 * imm_fnmrms one_atom * 0.75"
  by (simp add: one_atom_PC_bind hill_PC_step hill_energy one_atom_pc_fields)
     (simp add: one_atom_def)

lemma hill_samples:
  "pots hill (displaced (pc_imf one_atom_pc) 0 2 c) = - (real_of_int c)\<^sup>2 / 4"
  "pc_df hill (pc_imf one_atom_pc) 0 2 c = real_of_int c / 4"
  "equilibrium_f0 hill (pc_imf one_atom_pc) 0 = 0"
  "pots hill [0, 0, 0] = 0"
  by (simp_all add: pc_df_def equilibrium_f0_def displaced_def dev_def one_atom_pc_fields
        hill_def dot_def lessThan_Suc numeral_eq_Suc power2_eq_square)

text \<open>
  The step on the falling potential: the energy at the displacement \<open>2 * c\<close> is
  \<open>c^2 / 4\<close>, above \<open>3/8\<close> from \<open>c = 2\<close> on in both directions; the fit through \<open>(0, 0)\<close>,
  \<open>(4, -1)\<close> and \<open>(-4, -1)\<close> has \<open>a = -1/16\<close> and \<open>b = 0\<close>.
\<close>

theorem C7_pc_step_witness:
  "self_fnmrms (pc_imf one_atom_pc) = 2 \<and>
   PC_step hill polyfit3 one_atom_pc 0 =
     Some (Inr (one_atom_pc\<lparr>pc_imf := (pc_imf one_atom_pc)\<lparr>self_v0 := 0\<rparr>,
                       qpc := [0, 0, 0], w2pc := [- (1 / 8), 0, 0]\<rparr>,
           Some \<lparr>vlist = [0, - 1, - 1], flist = [0, 1 / 2, - (1 / 2)], qlist = [0, 4, - 4]\<rparr>))"
proof -
  note T = C7_pc_step [where p = one_atom_pc and step = 0 and eng = hill and polyfit = polyfit3
      and eigh = diag_eigh and eigvecs = "\<lambda>A. A" and mv = one_atom and ?p0.0 = one_atom_pc]
  from T one_atom_PC_bind have 1: "self_fnmrms (pc_imf one_atom_pc) = 2" by blast
  have w: "\<not> \<bar>imm_w2 (imm (pc_imf one_atom_pc)) ! 0\<bar> < 1 / 10 ^ 10"
    by (simp add: one_atom_pc_fields)
  note S = T [THEN conjunct2, unfolded Let_def, THEN conjunct2, THEN mp, OF w, THEN conjunct2,
      THEN spec, THEN spec, THEN mp]
  have pf: "polyfit3 [0, 4, - 4] [0, - 1, - 1] = (- (1 / 16), 0, 0)"
    by (simp add: polyfit3_def Let_def)
  have 2: "PC_step hill polyfit3 one_atom_pc 0 =
     Some (Inr (one_atom_pc\<lparr>pc_imf := (pc_imf one_atom_pc)\<lparr>self_v0 := 0\<rparr>,
                       qpc := [0, 0, 0], w2pc := [- (1 / 8), 0, 0]\<rparr>,
           Some \<lparr>vlist = [0, - 1, - 1], flist = [0, 1 / 2, - (1 / 2)], qlist = [0, 4, - 4]\<rparr>))"
    using S [of 1 1]
    by (simp add: one_atom_pc_fields hill_samples pf)
  from 1 2 show ?thesis by simp
qed

subsection \<open>VSCFSolver.step stops when a file is missing\<close>








lemma length_zeros2 [simp]: "length (zeros2 r c) = r"
  by (simp add: zeros2_def)











subsection \<open>The mean-field part of the MP2 matrix element\<close>

lemma matel_round_mft:
  "snd (matel_round evecs ss Psi Psj dvmfti vij modes istate jstate inm acc) = snd acc + snd acc"
  by (simp add: matel_round_def Let_def)

lemma fold_matel_round_mft:
  "snd acc = 0 \<Longrightarrow>
   snd (fold (matel_round evecs ss Psi Psj dvmfti vij modes istate jstate) rounds acc) = 0"
proof (induction rounds arbitrary: acc)
  case Nil
  then show ?case by simp
next
  case (Cons inm rounds)
  have "snd (matel_round evecs ss Psi Psj dvmfti vij modes istate jstate inm acc) = 0"
    using Cons.prems by (simp add: matel_round_mft)
  from Cons.IH [OF this] show ?case by simp
qed

lemma matel_round_cpl:
  "fst (matel_round evecs ss Psi Psj dvmfti vij modes istate jstate inm acc) =
   fst (matel_round evecs ss Psi Psj dvmfti' vij modes istate jstate inm acc')"
  if "fst acc = fst acc'"
  using that by (simp add: matel_round_def Let_def)

lemma fold_matel_round_cpl:
  "fst acc = fst acc' \<Longrightarrow>
   fst (fold (matel_round evecs ss Psi Psj dvmfti vij modes istate jstate) rounds acc) =
   fst (fold (matel_round evecs ss Psi Psj dvmfti' vij modes istate jstate) rounds acc')"
proof (induction rounds arbitrary: acc acc')
  case Nil
  then show ?case by simp
next
  case (Cons inm rounds)
  have "fst (matel_round evecs ss Psi Psj dvmfti vij modes istate jstate inm acc) =
        fst (matel_round evecs ss Psi Psj dvmfti' vij modes istate jstate inm acc')"
    using Cons.prems by (rule matel_round_cpl)
  from Cons.IH [OF this] show ?case by simp
qed

text \<open>
  C9: \<open>matelmft\<close> starts at 0.0 and each round of the loop executes
  \<open>matelmft += matelmft\<close>, so it is zero after the loop for every pair of states; the
  matrix element \<open>matel = matelcpl - matelmft\<close> is \<open>matelcpl\<close> alone. The term \<open>matel3\<close> is
  computed from the mean-field potential \<open>dvmfti\<close> and never used: the matrix element is
  the same for any other mean-field potential.
\<close>

theorem C9_matelmft_is_zero:
  "snd (matel_parts evecs ss Psi Psj dvmfti vij modes istate jstate) = 0 \<and>
   matel evecs ss Psi Psj dvmfti vij modes istate jstate =
     fst (matel_parts evecs ss Psi Psj dvmfti vij modes istate jstate) \<and>
   matel evecs ss Psi Psj dvmfti vij modes istate jstate =
     matel evecs ss Psi Psj dvmfti' vij modes istate jstate"
proof -
  have z: "snd (matel_parts evecs ss Psi Psj d vij modes istate jstate) = 0" for d
    unfolding matel_parts_def by (rule fold_matel_round_mft) simp
  have c: "fst (matel_parts evecs ss Psi Psj dvmfti vij modes istate jstate) =
           fst (matel_parts evecs ss Psi Psj dvmfti' vij modes istate jstate)"
    unfolding matel_parts_def by (rule fold_matel_round_cpl) simp
  show ?thesis
    by (simp add: matel_def z c)
qed

lemma two_mode_parts:
  "matel_parts (\<lambda>knm k. [1]) (\<lambda>st knm. 0) (\<lambda>inm. [1]) (\<lambda>inm. [1]) (\<lambda>inm. [3]) (\<lambda>ij. [[2]])
     [0, 1] 0 1 = (2, 0)"
  by (simp add: matel_parts_def matel_round_def matel1_def matel2_def overlap_def dot_def Let_def)

text \<open>
  Two modes on a grid of one point: \<open>matel3\<close> is 3 for the first mode, and the matrix
  element is the coupling part 2 all the same.
\<close>

theorem C9_matelmft_is_zero_witness:
  "matel3 (\<lambda>knm k. [1]) (\<lambda>st knm. 0) (\<lambda>inm. [1]) (\<lambda>inm. [1]) (\<lambda>inm. [3]) [0, 1] 0 1 0 = 3 \<and>
   matel (\<lambda>knm k. [1]) (\<lambda>st knm. 0) (\<lambda>inm. [1]) (\<lambda>inm. [1]) (\<lambda>inm. [3]) (\<lambda>ij. [[2]])
     [0, 1] 0 1 = 2"
  using C9_matelmft_is_zero [of "\<lambda>knm k. [1]" "\<lambda>st knm. 0" "\<lambda>inm. [1]" "\<lambda>inm. [1]" "\<lambda>inm. [3]"
      "\<lambda>ij. [[2]]" "[0, 1]" 0 1 "\<lambda>inm. [3]"]
  by (simp add: two_mode_parts [simplified] matel3_def overlap_def dot_def)

end
